theory Spec2Isabelle
  imports Complex_Main
begin

section \<open>JavaScript strings\<close>

text \<open>
  A string is a list of characters, each read as one UTF-16 code unit in the range
  U+0000 .. U+00FF (Latin-1): \<open>CHR 0xF1\<close> is the letter n with tilde.  The functions
  below are the JavaScript string methods the natural-language pipeline calls, on
  that range.
\<close>

definition char_code :: "char \<Rightarrow> nat" where
  "char_code c = of_char c"

definition is_digit :: "char \<Rightarrow> bool" where
  "is_digit c = (48 \<le> char_code c \<and> char_code c \<le> 57)"

definition is_upper :: "char \<Rightarrow> bool" where
  "is_upper c = (65 \<le> char_code c \<and> char_code c \<le> 90)"

definition is_lower :: "char \<Rightarrow> bool" where
  "is_lower c = (97 \<le> char_code c \<and> char_code c \<le> 122)"

text \<open>\<open>\w\<close> is \<open>[A-Za-z0-9_]\<close>; \<open>\s\<close> and \<open>trim\<close> use the white space and line
  terminators of the range: TAB, LF, VT, FF, CR, SPACE and NBSP.\<close>

definition is_word :: "char \<Rightarrow> bool" where
  "is_word c = (is_lower c \<or> is_upper c \<or> is_digit c \<or> c = CHR ''_'')"

definition is_space :: "char \<Rightarrow> bool" where
  "is_space c = (char_code c \<in> set [9, 10, 11, 12, 13, 32, 160])"

definition toLowerCase_char :: "char \<Rightarrow> char" where
  "toLowerCase_char c =
     (if is_upper c \<or> (192 \<le> char_code c \<and> char_code c \<le> 222 \<and> char_code c \<noteq> 215)
      then char_of (char_code c + 32) else c)"

text \<open>Upper case inside the range; y with diaeresis, the micro sign and sharp s have
  no upper case there and stay.\<close>

definition toUpperCase_char :: "char \<Rightarrow> char" where
  "toUpperCase_char c =
     (if is_lower c \<or> (224 \<le> char_code c \<and> char_code c \<le> 254 \<and> char_code c \<noteq> 247)
      then char_of (char_code c - 32) else c)"

definition toLowerCase :: "string \<Rightarrow> string" where
  "toLowerCase s = map toLowerCase_char s"

definition trim :: "string \<Rightarrow> string" where
  "trim s = rev (dropWhile is_space (rev (dropWhile is_space s)))"

fun starts_with :: "string \<Rightarrow> string \<Rightarrow> bool" where
  "starts_with s [] = True"
| "starts_with [] (p # ps) = False"
| "starts_with (c # cs) (p # ps) = (c = p \<and> starts_with cs ps)"

text \<open>\<open>s.includes(sub)\<close>.\<close>

fun str_includes :: "string \<Rightarrow> string \<Rightarrow> bool" where
  "str_includes [] sub = (sub = [])"
| "str_includes (c # cs) sub = (starts_with (c # cs) sub \<or> str_includes cs sub)"

text \<open>Truthiness of an optional string: \<open>undefined\<close>, \<open>null\<close> and \<open>''\<close> are falsy.\<close>

fun truthy :: "string option \<Rightarrow> bool" where
  "truthy None = False"
| "truthy (Some s) = (s \<noteq> [])"

text \<open>\<open>xs.slice(-n)\<close> for a non-negative integer \<open>n\<close>: \<open>-0\<close> is \<open>0\<close>, so
  \<open>slice(-0)\<close> is the whole array.\<close>

definition slice_last :: "nat \<Rightarrow> 'a list \<Rightarrow> 'a list" where
  "slice_last n xs = (if n = 0 then xs else drop (length xs - n) xs)"

text \<open>\<open>[...new Set(xs)]\<close>: the first occurrence of each element, in order.\<close>

fun dedupe :: "'a list \<Rightarrow> 'a list \<Rightarrow> 'a list" where
  "dedupe seen [] = []"
| "dedupe seen (x # xs) = (if x \<in> set seen then dedupe seen xs else x # dedupe (x # seen) xs)"

section \<open>Regular expressions\<close>

text \<open>
  The regular expressions of the sources, as syntax trees, with the backtracking
  semantics of ECMAScript.  A character class is a list of items, possibly negated.
\<close>

datatype citem = Chr char | Rng char char | ClsW | ClsS | ClsD

datatype cclass = Pos "citem list" | Neg "citem list"

fun in_citem :: "char \<Rightarrow> citem \<Rightarrow> bool" where
  "in_citem x (Chr c) = (x = c)"
| "in_citem x (Rng a b) = (char_code a \<le> char_code x \<and> char_code x \<le> char_code b)"
| "in_citem x ClsW = is_word x"
| "in_citem x ClsS = is_space x"
| "in_citem x ClsD = is_digit x"

fun in_class :: "cclass \<Rightarrow> char \<Rightarrow> bool" where
  "in_class (Pos items) x = list_ex (in_citem x) items"
| "in_class (Neg items) x = (\<not> list_ex (in_citem x) items)"

text \<open>Every expression of the sources has at most one capturing group that is read, so
  a match state carries one capture.\<close>

datatype rx =
    RChar cclass
  | REps
  | RSeq rx rx
  | RAlt rx rx
  | RStar rx
  | RStarLazy rx
  | RGroup rx
  | RBol
  | REol
  | RWordB

text \<open>A match state is the text before the current position (reversed), the text from
  it on, and the capture.\<close>

type_synonym mstate = "string \<times> string \<times> string option"

fun word_at :: "string \<Rightarrow> bool" where
  "word_at [] = False"
| "word_at (c # _) = is_word c"

text \<open>\<open>ms r s\<close> lists the states in which a match of \<open>r\<close> started at \<open>s\<close> can
  end, in the order in which a backtracking matcher tries them: the first is the match
  it reports.  A repetition does not go round on an empty match.\<close>

function ms :: "rx \<Rightarrow> mstate \<Rightarrow> mstate list" where
  "ms (RChar P) (pre, [], cap) = []"
| "ms (RChar P) (pre, c # cs, cap) = (if in_class P c then [(c # pre, cs, cap)] else [])"
| "ms REps s = [s]"
| "ms (RSeq a b) s = concat (map (ms b) (ms a s))"
| "ms (RAlt a b) s = ms a s @ ms b s"
| "ms (RStar r) (pre, rest, cap) =
     concat (map (\<lambda>s'. if length (fst (snd s')) < length rest then ms (RStar r) s' else [])
                 (ms r (pre, rest, cap))) @ [(pre, rest, cap)]"
| "ms (RStarLazy r) (pre, rest, cap) =
     (pre, rest, cap) #
     concat (map (\<lambda>s'. if length (fst (snd s')) < length rest then ms (RStarLazy r) s' else [])
                 (ms r (pre, rest, cap)))"
| "ms (RGroup r) (pre, rest, cap) =
     map (\<lambda>(pre', rest', _). (pre', rest', Some (rev (take (length pre' - length pre) pre'))))
         (ms r (pre, rest, cap))"
| "ms RBol (pre, rest, cap) = (if pre = [] then [(pre, rest, cap)] else [])"
| "ms REol (pre, rest, cap) = (if rest = [] then [(pre, rest, cap)] else [])"
| "ms RWordB (pre, rest, cap) =
     (if word_at pre \<noteq> word_at rest then [(pre, rest, cap)] else [])"
  by pat_completeness auto
termination
  by (relation "inv_image (less_than <*lex*> less_than)
                  (\<lambda>(r, s). (size r, length (fst (snd s))))") auto

definition rx_opt :: "rx \<Rightarrow> rx" where
  "rx_opt r = RAlt r REps"

definition rx_plus :: "rx \<Rightarrow> rx" where
  "rx_plus r = RSeq r (RStar r)"

definition rx_plus_lazy :: "rx \<Rightarrow> rx" where
  "rx_plus_lazy r = RSeq r (RStarLazy r)"

definition seqs :: "rx list \<Rightarrow> rx" where
  "seqs rs = foldr RSeq rs REps"

fun alts :: "rx list \<Rightarrow> rx" where
  "alts [] = REps"
| "alts [r] = r"
| "alts (r # rs) = RAlt r (alts rs)"

text \<open>A literal, and a literal under the \<open>i\<close> flag: a character matches a pattern
  character when they are equal up to case.\<close>

definition lit :: "string \<Rightarrow> rx" where
  "lit s = seqs (map (\<lambda>c. RChar (Pos [Chr c])) s)"

definition liti :: "string \<Rightarrow> rx" where
  "liti s = seqs (map (\<lambda>c. RChar (Pos [Chr c, Chr (toLowerCase_char c), Chr (toUpperCase_char c)])) s)"

definition ws0 :: rx where
  "ws0 = RStar (RChar (Pos [ClsS]))"

definition ws1 :: rx where
  "ws1 = rx_plus (RChar (Pos [ClsS]))"

definition w1 :: rx where
  "w1 = rx_plus (RChar (Pos [ClsW]))"

definition d1 :: rx where
  "d1 = rx_plus (RChar (Pos [ClsD]))"

text \<open>The match at exactly this position: the matched text and the capture.\<close>

definition match_at :: "rx \<Rightarrow> string \<Rightarrow> string \<Rightarrow> (string \<times> string option) option" where
  "match_at r pre rest =
     (case ms r (pre, rest, None) of
        [] \<Rightarrow> None
      | (pre', rest', cap) # _ \<Rightarrow> Some (rev (take (length pre' - length pre) pre'), cap))"

text \<open>The leftmost match at or after this position: the index where it starts, the
  matched text and the capture.\<close>

fun rx_search :: "rx \<Rightarrow> string \<Rightarrow> string \<Rightarrow> (nat \<times> string \<times> string option) option" where
  "rx_search r pre [] =
     (case match_at r pre [] of None \<Rightarrow> None | Some (m, cap) \<Rightarrow> Some (length pre, m, cap))"
| "rx_search r pre (c # cs) =
     (case match_at r pre (c # cs) of
        None \<Rightarrow> rx_search r (c # pre) cs
      | Some (m, cap) \<Rightarrow> Some (length pre, m, cap))"

text \<open>\<open>s.match(r)\<close> for an expression without the \<open>g\<close> flag: the matched text and
  group 1 of the leftmost match.\<close>

definition str_match :: "rx \<Rightarrow> string \<Rightarrow> (string \<times> string option) option" where
  "str_match r s = map_option snd (rx_search r [] s)"

text \<open>The matches of an expression with the \<open>g\<close> flag, left to right (\<open>s.match(r)\<close>
  gives their texts, \<open>s.matchAll(r)\<close> their groups too).  The counter is the number of
  characters of the last match still to step over; after an empty match the search
  moves on by one character.\<close>

fun match_all_from :: "rx \<Rightarrow> nat \<Rightarrow> string \<Rightarrow> string \<Rightarrow> (string \<times> string option) list" where
  "match_all_from r (Suc k) pre [] = []"
| "match_all_from r (Suc k) pre (c # cs) = match_all_from r k (c # pre) cs"
| "match_all_from r 0 pre [] =
     (case match_at r pre [] of None \<Rightarrow> [] | Some m \<Rightarrow> [m])"
| "match_all_from r 0 pre (c # cs) =
     (case match_at r pre (c # cs) of
        None \<Rightarrow> match_all_from r 0 (c # pre) cs
      | Some m \<Rightarrow> m # match_all_from r (length (fst m) - 1) (c # pre) cs)"

definition match_all :: "rx \<Rightarrow> string \<Rightarrow> (string \<times> string option) list" where
  "match_all r s = match_all_from r 0 [] s"

text \<open>\<open>s.replace(r, rep)\<close> for an expression with the \<open>g\<close> flag and a replacement
  text without \<open>$\<close>.\<close>

fun replace_from :: "rx \<Rightarrow> string \<Rightarrow> nat \<Rightarrow> string \<Rightarrow> string \<Rightarrow> string" where
  "replace_from r rep (Suc k) pre [] = []"
| "replace_from r rep (Suc k) pre (c # cs) = replace_from r rep k (c # pre) cs"
| "replace_from r rep 0 pre [] =
     (case match_at r pre [] of None \<Rightarrow> [] | Some m \<Rightarrow> rep)"
| "replace_from r rep 0 pre (c # cs) =
     (case match_at r pre (c # cs) of
        None \<Rightarrow> c # replace_from r rep 0 (c # pre) cs
      | Some m \<Rightarrow>
          (if fst m = [] then rep @ c # replace_from r rep 0 (c # pre) cs
           else rep @ replace_from r rep (length (fst m) - 1) (c # pre) cs))"

definition replace_all :: "rx \<Rightarrow> string \<Rightarrow> string \<Rightarrow> string" where
  "replace_all r rep s = replace_from r rep 0 [] s"

text \<open>\<open>s.split(r)\<close> for an expression without a group: the pieces between the
  matches; a match that ends where the current piece starts is passed over.  The last
  argument is the current piece, reversed.\<close>

fun split_from :: "rx \<Rightarrow> nat \<Rightarrow> string \<Rightarrow> string \<Rightarrow> string \<Rightarrow> string list" where
  "split_from r k pre [] cur = [rev cur]"
| "split_from r (Suc k) pre (c # cs) cur = split_from r k (c # pre) cs cur"
| "split_from r 0 pre (c # cs) cur =
     (case match_at r pre (c # cs) of
        None \<Rightarrow> split_from r 0 (c # pre) cs (c # cur)
      | Some m \<Rightarrow>
          (if fst m = [] then
             (if cur = [] then split_from r 0 (c # pre) cs (c # cur)
              else rev cur # split_from r 0 (c # pre) cs [c])
           else rev cur # split_from r (length (fst m) - 1) (c # pre) cs []))"

definition js_split :: "rx \<Rightarrow> string \<Rightarrow> string list" where
  "js_split r s =
     (if s = [] then (case match_at r [] [] of None \<Rightarrow> [[]] | Some m \<Rightarrow> [])
      else split_from r 0 [] s [])"

text \<open>A \<open>RegExp\<close> object with the \<open>g\<close> flag keeps \<open>lastIndex\<close> between calls.
  \<open>r.test(s)\<close> searches from \<open>lastIndex\<close>; a match sets \<open>lastIndex\<close> to its end, a
  failure sets it to 0.\<close>

record RegExp =
  source :: rx
  lastIndex :: nat

definition RegExp_test :: "RegExp \<Rightarrow> string \<Rightarrow> bool \<times> RegExp" where
  "RegExp_test re s =
     (if lastIndex re > length s then (False, re\<lparr>lastIndex := 0\<rparr>)
      else (case rx_search (source re) (rev (take (lastIndex re) s)) (drop (lastIndex re) s) of
              None \<Rightarrow> (False, re\<lparr>lastIndex := 0\<rparr>)
            | Some (i, m, cap) \<Rightarrow> (True, re\<lparr>lastIndex := i + length m\<rparr>)))"

text \<open>\<open>r.test(s)\<close> for an expression without the \<open>g\<close> flag.\<close>

definition rx_test :: "rx \<Rightarrow> string \<Rightarrow> bool" where
  "rx_test r s = (rx_search r [] s \<noteq> None)"


section \<open>Types of the pipeline (types/nlp.ts)\<close>

datatype IntentType =
    LIST_BASES | LIST_RECORDS | CREATE_RECORD | UPDATE_RECORD | DELETE_RECORD
  | SEARCH_RECORDS | LIST_TABLES | GET_RECORD | CREATE_WEBHOOK | LIST_WEBHOOKS
  | DELETE_WEBHOOK | GET_WEBHOOK_PAYLOADS | GET_BASE_SCHEMA | DESCRIBE_TABLE
  | CREATE_TABLE | DELETE_TABLE | UPDATE_TABLE | CREATE_FIELD | DELETE_FIELD
  | UPDATE_FIELD | LIST_FIELD_TYPES | BATCH_CREATE_RECORDS | BATCH_UPDATE_RECORDS
  | BATCH_DELETE_RECORDS | BATCH_UPSERT_RECORDS | UPLOAD_ATTACHMENT
  | LIST_COLLABORATORS | LIST_SHARES | CREATE_VIEW | GET_VIEW_METADATA
  | GET_TABLE_VIEWS | CREATE_BASE | ANALYZE_DATA | CREATE_REPORT | DATA_INSIGHTS
  | OPTIMIZE_WORKFLOW | SMART_SCHEMA_DESIGN | DATA_QUALITY_AUDIT
  | PREDICTIVE_ANALYTICS | NATURAL_LANGUAGE_QUERY | SMART_DATA_TRANSFORMATION
  | AUTOMATION_RECOMMENDATIONS | UNKNOWN

text \<open>The string value of each member of the enum.\<close>

fun intent_value :: "IntentType \<Rightarrow> string" where
  "intent_value LIST_BASES = ''list_bases''"
| "intent_value LIST_RECORDS = ''list_records''"
| "intent_value CREATE_RECORD = ''create_record''"
| "intent_value UPDATE_RECORD = ''update_record''"
| "intent_value DELETE_RECORD = ''delete_record''"
| "intent_value SEARCH_RECORDS = ''search_records''"
| "intent_value LIST_TABLES = ''list_tables''"
| "intent_value GET_RECORD = ''get_record''"
| "intent_value CREATE_WEBHOOK = ''create_webhook''"
| "intent_value LIST_WEBHOOKS = ''list_webhooks''"
| "intent_value DELETE_WEBHOOK = ''delete_webhook''"
| "intent_value GET_WEBHOOK_PAYLOADS = ''get_webhook_payloads''"
| "intent_value GET_BASE_SCHEMA = ''get_base_schema''"
| "intent_value DESCRIBE_TABLE = ''describe_table''"
| "intent_value CREATE_TABLE = ''create_table''"
| "intent_value DELETE_TABLE = ''delete_table''"
| "intent_value UPDATE_TABLE = ''update_table''"
| "intent_value CREATE_FIELD = ''create_field''"
| "intent_value DELETE_FIELD = ''delete_field''"
| "intent_value UPDATE_FIELD = ''update_field''"
| "intent_value LIST_FIELD_TYPES = ''list_field_types''"
| "intent_value BATCH_CREATE_RECORDS = ''batch_create_records''"
| "intent_value BATCH_UPDATE_RECORDS = ''batch_update_records''"
| "intent_value BATCH_DELETE_RECORDS = ''batch_delete_records''"
| "intent_value BATCH_UPSERT_RECORDS = ''batch_upsert_records''"
| "intent_value UPLOAD_ATTACHMENT = ''upload_attachment''"
| "intent_value LIST_COLLABORATORS = ''list_collaborators''"
| "intent_value LIST_SHARES = ''list_shares''"
| "intent_value CREATE_VIEW = ''create_view''"
| "intent_value GET_VIEW_METADATA = ''get_view_metadata''"
| "intent_value GET_TABLE_VIEWS = ''get_table_views''"
| "intent_value CREATE_BASE = ''create_base''"
| "intent_value ANALYZE_DATA = ''analyze_data''"
| "intent_value CREATE_REPORT = ''create_report''"
| "intent_value DATA_INSIGHTS = ''data_insights''"
| "intent_value OPTIMIZE_WORKFLOW = ''optimize_workflow''"
| "intent_value SMART_SCHEMA_DESIGN = ''smart_schema_design''"
| "intent_value DATA_QUALITY_AUDIT = ''data_quality_audit''"
| "intent_value PREDICTIVE_ANALYTICS = ''predictive_analytics''"
| "intent_value NATURAL_LANGUAGE_QUERY = ''natural_language_query''"
| "intent_value SMART_DATA_TRANSFORMATION = ''smart_data_transformation''"
| "intent_value AUTOMATION_RECOMMENDATIONS = ''automation_recommendations''"
| "intent_value UNKNOWN = ''unknown''"

record NaturalLanguageQuery =
  query :: string
  q_userId :: "string option"
  q_sessionId :: "string option"

text \<open>The slots of \<open>ExtractedEntities\<close> that the pipeline assigns or reads; a slot is
  \<open>None\<close> when the object has no such key.  The other slots of the interface
  (\<open>fieldValue\<close>, \<open>fieldType\<close>, \<open>viewName\<close>, \<open>permissions\<close>, \<open>shareUrl\<close>, \<open>extra\<close>) are
  never assigned.\<close>

record ExtractedEntities =
  tableName :: "string option"
  recordId :: "string option"
  fieldName :: "string option"
  baseId :: "string option"
  webhookUrl :: "string option"
  webhookId :: "string option"
  attachmentUrl :: "string option"
  priority :: "string option"
  status :: "string option"
  dateReference :: "string option"
  count :: "nat option"
  fieldNames :: "string list option"

definition no_entities :: ExtractedEntities where
  "no_entities =
     \<lparr>tableName = None, recordId = None, fieldName = None, baseId = None,
      webhookUrl = None, webhookId = None, attachmentUrl = None, priority = None,
      status = None, dateReference = None, count = None, fieldNames = None\<rparr>"

fun key_count :: "'a option \<Rightarrow> nat" where
  "key_count None = 0"
| "key_count (Some _) = 1"

text \<open>\<open>Object.keys(entities).length\<close>.\<close>

definition entityCount :: "ExtractedEntities \<Rightarrow> nat" where
  "entityCount e =
     key_count (tableName e) + key_count (recordId e) + key_count (fieldName e) +
     key_count (baseId e) + key_count (webhookUrl e) + key_count (webhookId e) +
     key_count (attachmentUrl e) + key_count (priority e) + key_count (status e) +
     key_count (dateReference e) + key_count (count e) + key_count (fieldNames e)"

record WebhookConfig =
  notificationUrl :: string
  dataChangeType :: string

record AttachmentData =
  url :: string

record QueryParameters =
  table :: "string option"
  p_baseId :: "string option"
  p_recordId :: "string option"
  p_fields :: "(string \<times> string) list option"
  filterByFormula :: "string option"
  maxRecords :: "nat option"
  webhookConfig :: "WebhookConfig option"
  attachmentData :: "AttachmentData option"

definition no_parameters :: QueryParameters where
  "no_parameters =
     \<lparr>table = None, p_baseId = None, p_recordId = None, p_fields = None,
      filterByFormula = None, maxRecords = None, webhookConfig = None,
      attachmentData = None\<rparr>"

record PreviousQuery =
  pq_query :: string
  pq_intent :: IntentType
  pq_timestamp :: "nat option"
  pq_result :: "string option"

record MentionedEntities =
  m_tables :: "string list"
  m_fields :: "string list"
  m_records :: "string list"

record ConversationPreferences =
  language :: string
  dateFormat :: string
  responseFormat :: string

record ConversationContext =
  sessionId :: string
  userId :: string
  currentBaseId :: "string option"
  currentTable :: "string option"
  currentRecordId :: "string option"
  previousQueries :: "PreviousQuery list"
  mentionedEntities :: MentionedEntities
  preferences :: ConversationPreferences

datatype ClarificationType =
  MISSING_TABLE | MISSING_FIELD | MISSING_VALUE | AMBIGUOUS_REFERENCE | PERMISSION_ISSUE

record Clarification =
  question :: string
  ctype :: ClarificationType
  required :: bool

record ProcessedQuery =
  intent :: IntentType
  entities :: ExtractedEntities
  parameters :: QueryParameters
  confidence :: rat
  requiresClarification :: bool
  clarifications :: "Clarification list"

datatype Sentiment = positive | negative | neutral

datatype Urgency = high | medium | low

record SemanticAnalysis =
  sa_confidence :: rat
  sa_entities :: "string list"
  sa_actions :: "string list"
  sa_context :: "string list"
  sentiment :: Sentiment
  urgency :: Urgency

text \<open>What a stage can throw: the error of \<open>updateContext\<close>, the \<open>TypeError\<close> of a
  method call on \<open>undefined\<close>, and an unexpected exception raised inside a stage.\<close>

datatype stage =
    StNormalize | StGetContext | StAnalyze | StMapIntent | StExtract | StRelative
  | StBuild | StValidate | StClarify | StConfidence | StUpdate

datatype error = ContextNotFound string | TypeError | Unexpected stage

section \<open>Context handler (nlp/context-handler.ts)\<close>

record ContextHandler =
  contexts :: "string \<rightharpoonup> ConversationContext"
  maxContextQueries :: nat

text \<open>The constructor; its argument defaults to 10.\<close>

definition new_ContextHandler :: "nat \<Rightarrow> ContextHandler" where
  "new_ContextHandler n = \<lparr>contexts = Map.empty, maxContextQueries = n\<rparr>"

definition createNewContext :: "string \<Rightarrow> string \<Rightarrow> ConversationContext" where
  "createNewContext sid uid =
     \<lparr>sessionId = sid, userId = uid, currentBaseId = None, currentTable = None,
      currentRecordId = None, previousQueries = [],
      mentionedEntities = \<lparr>m_tables = [], m_fields = [], m_records = []\<rparr>,
      preferences = \<lparr>language = ''es'', dateFormat = ''YYYY-MM-DD'',
                     responseFormat = ''natural''\<rparr>\<rparr>"

definition getContext ::
  "ContextHandler \<Rightarrow> string \<Rightarrow> string \<Rightarrow> ConversationContext \<times> ContextHandler" where
  "getContext H sid uid =
     (case contexts H sid of
        Some context \<Rightarrow> (context, H)
      | None \<Rightarrow>
          (let context = createNewContext sid uid
           in (context, H\<lparr>contexts := (contexts H)(sid \<mapsto> context)\<rparr>)))"

record QueryData =
  qd_query :: string
  qd_intent :: IntentType
  qd_timestamp :: "nat option"
  qd_entities :: "ExtractedEntities option"
  qd_result :: "string option"

definition push_new :: "string \<Rightarrow> string list \<Rightarrow> string list" where
  "push_new x xs = (if x \<in> set xs then xs else xs @ [x])"

text \<open>The four updates of \<open>updateContext\<close> from the entities of the turn, in the order
  of the source.\<close>

definition mention_table :: "ExtractedEntities \<Rightarrow> ConversationContext \<Rightarrow> ConversationContext" where
  "mention_table e c =
     (case tableName e of
        Some t \<Rightarrow>
          (if t \<noteq> [] then
             c\<lparr>mentionedEntities :=
                  (mentionedEntities c)\<lparr>m_tables := push_new t (m_tables (mentionedEntities c))\<rparr>,
               currentTable := Some t\<rparr>
           else c)
      | None \<Rightarrow> c)"

definition mention_record :: "ExtractedEntities \<Rightarrow> ConversationContext \<Rightarrow> ConversationContext" where
  "mention_record e c =
     (case recordId e of
        Some r \<Rightarrow>
          (if r \<noteq> [] then
             c\<lparr>currentRecordId := Some r,
               mentionedEntities :=
                  (mentionedEntities c)\<lparr>m_records := push_new r (m_records (mentionedEntities c))\<rparr>\<rparr>
           else c)
      | None \<Rightarrow> c)"

definition mention_base :: "ExtractedEntities \<Rightarrow> ConversationContext \<Rightarrow> ConversationContext" where
  "mention_base e c =
     (case baseId e of
        Some b \<Rightarrow> (if b \<noteq> [] then c\<lparr>currentBaseId := Some b\<rparr> else c)
      | None \<Rightarrow> c)"

definition mention_field :: "ExtractedEntities \<Rightarrow> ConversationContext \<Rightarrow> ConversationContext" where
  "mention_field e c =
     (case fieldName e of
        Some f \<Rightarrow>
          (if f \<noteq> [] then
             c\<lparr>mentionedEntities :=
                  (mentionedEntities c)\<lparr>m_fields := push_new f (m_fields (mentionedEntities c))\<rparr>\<rparr>
           else c)
      | None \<Rightarrow> c)"

text \<open>The history step of \<open>updateContext\<close>: push, then cut to the last
  \<open>maxContextQueries\<close> entries when the history is longer than that.\<close>

definition push_history :: "nat \<Rightarrow> PreviousQuery \<Rightarrow> PreviousQuery list \<Rightarrow> PreviousQuery list" where
  "push_history n pq hist =
     (let hist' = hist @ [pq]
      in if length hist' > n then slice_last n hist' else hist')"

definition updateContext :: "ContextHandler \<Rightarrow> string \<Rightarrow> QueryData \<Rightarrow> error + ContextHandler" where
  "updateContext H sid queryData =
     (case contexts H sid of
        None \<Rightarrow> Inl (ContextNotFound sid)
      | Some context \<Rightarrow>
          (let previousQuery =
                 \<lparr>pq_query = qd_query queryData, pq_intent = qd_intent queryData,
                  pq_timestamp = qd_timestamp queryData, pq_result = qd_result queryData\<rparr>;
               c1 = context\<lparr>previousQueries :=
                      push_history (maxContextQueries H) previousQuery (previousQueries context)\<rparr>;
               c2 = (case qd_entities queryData of
                       None \<Rightarrow> c1
                     | Some e \<Rightarrow> mention_field e (mention_base e (mention_record e (mention_table e c1))))
           in Inr (H\<lparr>contexts := (contexts H)(sid \<mapsto> c2)\<rparr>)))"

text \<open>A run of \<open>updateContext\<close> calls on one session; it stops at the first error.\<close>

fun updateContext_all :: "ContextHandler \<Rightarrow> string \<Rightarrow> QueryData list \<Rightarrow> error + ContextHandler" where
  "updateContext_all H sid [] = Inr H"
| "updateContext_all H sid (d # ds) =
     (case updateContext H sid d of
        Inl e \<Rightarrow> Inl e
      | Inr H' \<Rightarrow> updateContext_all H' sid ds)"

definition history_of :: "ContextHandler \<Rightarrow> string \<Rightarrow> PreviousQuery list" where
  "history_of H sid = (case contexts H sid of None \<Rightarrow> [] | Some c \<Rightarrow> previousQueries c)"

definition turn_of :: "QueryData \<Rightarrow> PreviousQuery" where
  "turn_of d = \<lparr>pq_query = qd_query d, pq_intent = qd_intent d,
               pq_timestamp = qd_timestamp d, pq_result = qd_result d\<rparr>"


section \<open>Semantic analyzer (nlp/semantic-analyzer.ts)\<close>

text \<open>The accented letters of the character classes: a, e, i, o, u with acute accent,
  n with tilde and N with tilde.\<close>

definition accents :: "citem list" where
  "accents = [Chr (CHR 0xE1), Chr (CHR 0xE9), Chr (CHR 0xED), Chr (CHR 0xF3), Chr (CHR 0xFA),
              Chr (CHR 0xF1), Chr (CHR 0xD1)]"

definition lower_az :: citem where
  "lower_az = Rng CHR ''a'' CHR ''z''"

definition upper_az :: citem where
  "upper_az = Rng CHR ''A'' CHR ''Z''"

definition digit_09 :: citem where
  "digit_09 = Rng CHR ''0'' CHR ''9''"

definition actionWords :: "string list" where
  "actionWords =
     [''crear'', ''mostrar'', ''listar'', ''ver'', ''obtener'', ''buscar'', ''filtrar'',
      ''actualizar'', ''modificar'', ''cambiar'', ''editar'', ''eliminar'', ''borrar'',
      ''agregar'', ''a'' @ [CHR 0xF1] @ ''adir'', ''insertar'', ''subir'', ''adjuntar'']"

definition contextWords :: "string list" where
  "contextWords =
     [''tabla'', ''registro'', ''base'', ''campo'', ''webhook'', ''archivo'', ''imagen'',
      ''proyecto'', ''tarea'', ''estado'', ''prioridad'', ''fecha'', ''vencimiento'']"

text \<open>\<open>/\b[A-Z][a-z......\s]+\b/g\<close>, \<open>/\b[A-Z]{2,}\b/g\<close> and
  \<open>/\b[a-z......_][a-zA-Z0-9......_]*\b/g\<close>.\<close>

definition entityPatterns :: "rx list" where
  "entityPatterns =
     [seqs [RWordB, RChar (Pos [upper_az]),
            rx_plus (RChar (Pos ([lower_az] @ accents @ [ClsS]))), RWordB],
      seqs [RWordB, RChar (Pos [upper_az]), rx_plus (RChar (Pos [upper_az])), RWordB],
      seqs [RWordB, RChar (Pos ([lower_az] @ accents @ [Chr CHR ''_''])),
            RStar (RChar (Pos ([lower_az, upper_az, digit_09] @ accents @ [Chr CHR ''_'']))),
            RWordB]]"

definition isCommonWord :: "string \<Rightarrow> bool" where
  "isCommonWord word =
     (word \<in> set [''una'', ''un'', ''el'', ''la'', ''de'', ''en'', ''con'', ''para'', ''por'',
                   ''sobre'', ''esta'', ''este'', ''esa'', ''ese'', ''todas'', ''todos'',
                   ''todos'', ''que'', ''donde''])"

definition extractNamedEntities :: "string \<Rightarrow> string list" where
  "extractNamedEntities q =
     dedupe []
       (concat (map (\<lambda>pattern.
          filter (\<lambda>m. length m > 2 \<and> \<not> isCommonWord (toLowerCase m))
                 (map fst (match_all pattern q))) entityPatterns))"

definition analyzeSentiment :: "string list \<Rightarrow> Sentiment" where
  "analyzeSentiment words =
     (let positiveWords = [''bueno'', ''excelente'', ''perfecto'', ''correcto'', ''bien''];
          negativeWords = [''malo'', ''incorrecto'', ''error'', ''problema'', ''fallo''];
          positiveCount = length (filter (\<lambda>w. w \<in> set positiveWords) words);
          negativeCount = length (filter (\<lambda>w. w \<in> set negativeWords) words)
      in if positiveCount > negativeCount then positive
         else if negativeCount > positiveCount then negative
         else neutral)"

definition analyzeUrgency :: "string list \<Rightarrow> string list \<Rightarrow> Urgency" where
  "analyzeUrgency words ents =
     (let urgentWords = [''urgente'', ''r'' @ [CHR 0xE1] @ ''pido'', ''inmediato'', ''ahora'', ''ya''];
          mediumWords = [''pronto'', ''r'' @ [CHR 0xE1] @ ''pido'', ''pr'' @ [CHR 0xF3] @ ''ximo''];
          hasUrgent = list_ex (\<lambda>w. w \<in> set urgentWords) words;
          hasMedium = list_ex (\<lambda>w. w \<in> set mediumWords) words
      in if hasUrgent then high else if hasMedium then medium else low)"

text \<open>The numbers of the scores are exact rationals.\<close>

definition sa_calculateConfidence :: "string list \<Rightarrow> string list \<Rightarrow> string list \<Rightarrow> rat" where
  "sa_calculateConfidence actions ents ctxWords =
     min (3/10 + min (of_nat (length actions) * (2/10)) (4/10)
               + min (of_nat (length ents) * (1/10)) (3/10)
               + min (of_nat (length ctxWords) * (1/10)) (2/10)) 1"

definition analyze :: "string \<Rightarrow> ConversationContext \<Rightarrow> SemanticAnalysis" where
  "analyze q context =
     (let words = js_split ws1 (toLowerCase q);
          actions = filter (\<lambda>w. w \<in> set actionWords) words;
          contextEntities = filter (\<lambda>w. w \<in> set contextWords) words;
          ents = extractNamedEntities q
      in \<lparr>sa_confidence = sa_calculateConfidence actions ents contextEntities,
          sa_entities = ents, sa_actions = actions, sa_context = contextEntities,
          sentiment = analyzeSentiment words, urgency = analyzeUrgency words ents\<rparr>)"

section \<open>Intent mapper (nlp/intent-mapper.ts)\<close>

text \<open>Every pattern of the table has the flags \<open>gi\<close>.  \<open>phrase\<close> is a run of words
  with \<open>\s+\<close> between them.\<close>

fun phrase_parts :: "string list \<Rightarrow> rx list" where
  "phrase_parts [] = []"
| "phrase_parts [w] = [liti w]"
| "phrase_parts (w # ws) = liti w # ws1 # phrase_parts ws"

definition phrase :: "string list \<Rightarrow> rx" where
  "phrase ws = seqs (phrase_parts ws)"

definition regexp :: "rx \<Rightarrow> RegExp" where
  "regexp r = \<lparr>source = r, lastIndex = 0\<rparr>"

definition que :: string where
  "que = ''qu'' @ [CHR 0xE9]"

definition anadir :: string where
  "anadir = ''a'' @ [CHR 0xF1] @ ''adir''"

definition multiples :: string where
  "multiples = ''m'' @ [CHR 0xFA] @ ''ltiples''"

type_synonym IntentMapper = "(IntentType \<times> RegExp list) list"

definition initializePatterns :: IntentMapper where
  "initializePatterns = map (\<lambda>(i, rs). (i, map regexp rs))
     [(LIST_BASES,
         [seqs [liti ''listar'', ws1,
                rx_opt (RGroup (seqs [liti ''todas'', ws1, liti ''mis'', ws1])),
                liti ''bases'', ws1, liti ''airtable'', ws1, liti ''accesibles''],
          phrase [''mostrarme'', ''todas'', ''mis'', ''bases''],
          phrase [que, ''bases'', ''tengo'', ''accesibles''],
          phrase [''listar'', ''bases'']]),
      (LIST_RECORDS,
         [seqs [liti ''mostrarme'', ws1, liti ''todos'', ws1, liti ''los'', ws1, liti ''registros'',
                ws1, RAlt (liti ''en'') (seqs [liti ''en'', ws1, liti ''la'']), ws1,
                liti ''tabla'', ws1, w1],
          seqs [liti ''listar'', ws1, liti ''registros'', ws1, RAlt (liti ''de'') (liti ''en''),
                ws1, w1],
          seqs [phrase [''ver'', ''registros'', ''de''], ws1, w1],
          seqs [phrase [''obtener'', ''registros'', ''de''], ws1, w1]]),
      (CREATE_RECORD,
         [seqs [liti ''crear'', ws1, rx_opt (seqs [liti ''una'', ws1]), liti ''nueva'', ws1,
                liti ''tarea''],
          phrase [''crear'', ''registro'', ''nuevo''],
          phrase [''agregar'', ''registro''],
          phrase [''insertar'', ''registro''],
          phrase [anadir, ''nuevo'', ''registro'']]),
      (UPDATE_RECORD,
         [seqs [liti ''actualizar'', ws1, rx_opt (seqs [liti ''el'', ws1]), liti ''estado'', ws1,
                liti ''de'', ws1, rx_opt (seqs [liti ''la'', ws1]), liti ''tarea''],
          phrase [''cambiar'', ''estado'', ''de''],
          phrase [''modificar'', ''registro''],
          phrase [''editar'', ''registro''],
          phrase [''actualizar'', ''registro'']]),
      (DELETE_RECORD,
         [seqs [liti ''eliminar'', ws1,
                rx_opt (seqs [liti ''todos'', ws1, liti ''los'', ws1]),
                phrase [''registros'', ''donde'', ''el'', ''estado'', ''sea'']],
          phrase [''borrar'', ''registros'', ''con'', ''estado''],
          phrase [''suprimir'', ''registros''],
          phrase [''eliminar'', ''registros'']]),
      (SEARCH_RECORDS,
         [seqs [phrase [''buscar'', ''registros'', ''donde''], ws1, w1, ws1,
                phrase [''sea'', ''igual'', ''a'']],
          phrase [''filtrar'', ''registros'', ''por''],
          phrase [''encontrar'', ''registros'', ''con''],
          phrase [''buscar'', ''registros'', ''que'']]),
      (LIST_TABLES,
         [phrase [que, ''tablas'', ''hay'', ''en'', ''mi'', ''base''],
          phrase [''mostrar'', ''tablas'', ''de'', ''la'', ''base''],
          phrase [''listar'', ''tablas''],
          phrase [que, ''tablas'', ''tengo'']]),
      (CREATE_WEBHOOK,
         [phrase [''crear'', ''un'', ''webhook'', ''para'', ''mi'', ''tabla''],
          phrase [''crear'', ''webhook''],
          phrase [''configurar'', ''webhook''],
          phrase [''establecer'', ''webhook'']]),
      (LIST_WEBHOOKS,
         [phrase [''listar'', ''todos'', ''los'', ''webhooks'', ''activos''],
          phrase [''mostrar'', ''webhooks''],
          phrase [''ver'', ''webhooks''],
          phrase [que, ''webhooks'', ''tengo'']]),
      (DELETE_WEBHOOK,
         [seqs [phrase [''eliminar'', ''webhook''], ws1, w1],
          phrase [''borrar'', ''webhook''],
          phrase [''remover'', ''webhook'']]),
      (GET_BASE_SCHEMA,
         [seqs [phrase [''mostrarme'', ''el'', ''esquema'', ''completo'', ''para''], ws1,
                RAlt (liti ''esta'') (liti ''la''), ws1, liti ''base''],
          phrase [''obtener'', ''esquema'', ''de'', ''base''],
          phrase [''describir'', ''base'']]),
      (DESCRIBE_TABLE,
         [seqs [phrase [''describir'', ''la'', ''tabla''], ws1, w1, ws1,
                phrase [''con'', ''todos'', ''los'', ''detalles'', ''de'', ''campo'']],
          phrase [''mostrar'', ''estructura'', ''de'', ''tabla''],
          phrase [''ver'', ''campos'', ''de'', ''tabla'']]),
      (CREATE_TABLE,
         [seqs [phrase [''crear'', ''una'', ''nueva'', ''tabla'', ''llamada''], ws1, w1],
          phrase [''crear'', ''tabla'', ''nueva''],
          phrase [anadir, ''tabla'']]),
      (CREATE_FIELD,
         [seqs [phrase [''agregar'', ''un'', ''campo'', ''de''], ws1, w1, ws1,
                phrase [''a'', ''la'', ''tabla'']],
          phrase [anadir, ''campo''],
          phrase [''crear'', ''campo'']]),
      (LIST_FIELD_TYPES,
         [phrase [que, ''tipos'', ''de'', ''campos'', ''est'' @ [CHR 0xE1] @ ''n'', ''disponibles'',
                  ''en'', ''airtable''],
          phrase [''tipos'', ''de'', ''campos'', ''disponibles''],
          phrase [''campos'', ''disponibles'']]),
      (BATCH_CREATE_RECORDS,
         [seqs [liti ''crear'', ws1, d1, ws1,
                phrase [''registros'', ''nuevos'', ''a'', ''la'', ''vez'']],
          phrase [''crear'', multiples, ''registros''],
          phrase [anadir, ''varios'', ''registros'']]),
      (BATCH_UPDATE_RECORDS,
         [phrase [''actualizar'', multiples, ''registros''],
          phrase [''modificar'', ''varios'', ''registros''],
          phrase [''cambiar'', ''varios'', ''registros'']]),
      (BATCH_DELETE_RECORDS,
         [seqs [phrase [''eliminar'', ''estos''], ws1, d1, ws1,
                phrase [''registros'', ''en'', ''una'', ''operaci'' @ [CHR 0xF3] @ ''n'']],
          phrase [''borrar'', multiples, ''registros''],
          phrase [''eliminar'', ''varios'', ''registros'']]),
      (UPLOAD_ATTACHMENT,
         [phrase [''adjuntar'', ''esta'', ''url'', ''de'', ''imagen''],
          phrase [''subir'', ''archivo''],
          phrase [''adjuntar'', ''archivo''],
          phrase [anadir, ''adjunto'']]),
      (LIST_COLLABORATORS,
         [phrase [''qui'' @ [CHR 0xE9] @ ''nes'', ''son'', ''los'', ''colaboradores'', ''en'',
                  ''esta'', ''base''],
          phrase [''mostrar'', ''colaboradores''],
          phrase [''ver'', ''colaboradores'']]),
      (LIST_SHARES,
         [phrase [''mostrarme'', ''todas'', ''las'', ''vistas'', ''compartidas'', ''en'', ''esta'',
                  ''base''],
          phrase [''ver'', ''vistas'', ''compartidas''],
          phrase [''mostrar'', ''compartidos'']]),
      (ANALYZE_DATA,
         [phrase [''analizar'', ''datos'', ''de''],
          phrase [''analizar'', ''tabla''],
          phrase [''estudiar'', ''datos'']])]"

text \<open>The inner loop of \<open>mapIntent\<close>: \<open>pattern.test(query)\<close> on each expression of
  one intent, until one matches.  Each call leaves its \<open>lastIndex\<close> behind.\<close>

fun test_patterns :: "RegExp list \<Rightarrow> string \<Rightarrow> bool \<times> RegExp list" where
  "test_patterns [] q = (False, [])"
| "test_patterns (p # ps) q =
     (case RegExp_test p q of
        (True, p') \<Rightarrow> (True, p' # ps)
      | (False, p') \<Rightarrow> (case test_patterns ps q of (b, ps') \<Rightarrow> (b, p' # ps')))"

text \<open>The outer loop, over the intents in the order of the table.\<close>

fun match_patterns :: "IntentMapper \<Rightarrow> string \<Rightarrow> IntentType option \<times> IntentMapper" where
  "match_patterns [] q = (None, [])"
| "match_patterns ((i, ps) # rest) q =
     (case test_patterns ps q of
        (True, ps') \<Rightarrow> (Some i, (i, ps') # rest)
      | (False, ps') \<Rightarrow> (case match_patterns rest q of (r, rest') \<Rightarrow> (r, (i, ps') # rest')))"

text \<open>The rules of \<open>mapIntent\<close> after the pattern table: context, then key words.\<close>

definition intent_by_keywords :: "string \<Rightarrow> ConversationContext \<Rightarrow> IntentType" where
  "intent_by_keywords q context =
     (if str_includes q ''esa tabla'' \<and> truthy (currentTable context) \<and>
         (str_includes q ''mostrar'' \<or> str_includes q ''ver'' \<or> str_includes q ''obtener'')
      then LIST_RECORDS
      else if str_includes q ''esa tabla'' \<and> truthy (currentTable context) \<and>
         (str_includes q ''crear'' \<or> str_includes q anadir)
      then CREATE_RECORD
      else if str_includes q ''ese registro'' \<and> truthy (currentRecordId context) \<and>
         (str_includes q ''actualizar'' \<or> str_includes q ''cambiar'' \<or> str_includes q ''modificar'')
      then UPDATE_RECORD
      else if str_includes q ''ese registro'' \<and> truthy (currentRecordId context) \<and>
         (str_includes q ''eliminar'' \<or> str_includes q ''borrar'')
      then DELETE_RECORD
      else if list_ex (str_includes q) [''crear'', ''nuevo'', anadir, ''insertar'', ''agregar'']
      then (if str_includes q ''tabla'' then CREATE_TABLE
            else if str_includes q ''campo'' then CREATE_FIELD
            else CREATE_RECORD)
      else if list_ex (str_includes q) [''mostrar'', ''listar'', ''ver'', ''obtener'']
      then (if str_includes q ''base'' then LIST_BASES
            else if str_includes q ''tabla'' \<or> str_includes q ''tablas'' then LIST_TABLES
            else if str_includes q ''webhook'' then LIST_WEBHOOKS
            else LIST_RECORDS)
      else if list_ex (str_includes q) [''actualizar'', ''modificar'', ''cambiar'', ''editar'']
      then UPDATE_RECORD
      else if list_ex (str_includes q) [''eliminar'', ''borrar'', ''suprimir'', ''remover'']
      then (if str_includes q ''webhook'' then DELETE_WEBHOOK else DELETE_RECORD)
      else UNKNOWN)"

definition mapIntent ::
  "IntentMapper \<Rightarrow> string \<Rightarrow> SemanticAnalysis \<Rightarrow> ConversationContext \<Rightarrow> IntentType \<times> IntentMapper" where
  "mapIntent M q semanticAnalysis context =
     (case match_patterns M q of
        (Some i, M') \<Rightarrow> (i, M')
      | (None, M') \<Rightarrow> (intent_by_keywords q context, M'))"

definition requiresTable :: "IntentType \<Rightarrow> bool" where
  "requiresTable i =
     (i \<in> set [LIST_RECORDS, CREATE_RECORD, UPDATE_RECORD, DELETE_RECORD, SEARCH_RECORDS,
               DESCRIBE_TABLE, CREATE_FIELD, CREATE_WEBHOOK, BATCH_CREATE_RECORDS,
               BATCH_UPDATE_RECORDS, BATCH_DELETE_RECORDS, UPLOAD_ATTACHMENT])"

definition requiresRecordId :: "IntentType \<Rightarrow> bool" where
  "requiresRecordId i = (i \<in> set [UPDATE_RECORD, DELETE_RECORD, GET_RECORD, UPLOAD_ATTACHMENT])"

section \<open>Validation engine (nlp/validation-engine.ts)\<close>

datatype Severity = SevError | SevCritical

record ValidationError =
  e_field :: string
  e_message :: string
  e_code :: string
  e_severity :: Severity

record ValidationWarning =
  w_field :: string
  w_message :: string
  w_code :: string
  w_suggestion :: "string option"

record ValidationResult =
  isValid :: bool
  errors :: "ValidationError list"
  warnings :: "ValidationWarning list"
  v_suggestions :: "string list"

text \<open>The values a parameter can hold, and their truthiness.\<close>

datatype pvalue =
    VUndefined
  | VString string
  | VNumber nat
  | VFields "(string \<times> string) list"
  | VWebhook WebhookConfig
  | VAttachment AttachmentData
  | VObject

fun js_truthy :: "pvalue \<Rightarrow> bool" where
  "js_truthy VUndefined = False"
| "js_truthy (VString v) = (v \<noteq> [])"
| "js_truthy (VNumber n) = (n \<noteq> 0)"
| "js_truthy (VFields fs) = True"
| "js_truthy (VWebhook w) = True"
| "js_truthy (VAttachment a) = True"
| "js_truthy VObject = True"

definition js_or :: "pvalue \<Rightarrow> pvalue \<Rightarrow> pvalue" where
  "js_or a b = (if js_truthy a then a else b)"

fun opt_value :: "('a \<Rightarrow> pvalue) \<Rightarrow> 'a option \<Rightarrow> pvalue" where
  "opt_value f None = VUndefined"
| "opt_value f (Some v) = f v"

text \<open>\<open>parameters[paramName]\<close> and the same on the three nested objects, for the keys
  these objects are built with.\<close>

definition param_prop :: "QueryParameters \<Rightarrow> string \<Rightarrow> pvalue" where
  "param_prop P name =
     (if name = ''table'' then opt_value VString (table P)
      else if name = ''baseId'' then opt_value VString (p_baseId P)
      else if name = ''recordId'' then opt_value VString (p_recordId P)
      else if name = ''fields'' then opt_value VFields (p_fields P)
      else if name = ''filterByFormula'' then opt_value VString (filterByFormula P)
      else if name = ''maxRecords'' then opt_value VNumber (maxRecords P)
      else if name = ''webhookConfig'' then opt_value VWebhook (webhookConfig P)
      else if name = ''attachmentData'' then opt_value VAttachment (attachmentData P)
      else VUndefined)"

definition fields_prop :: "(string \<times> string) list \<Rightarrow> string \<Rightarrow> pvalue" where
  "fields_prop fs name = opt_value VString (map_of fs name)"

definition webhook_prop :: "WebhookConfig \<Rightarrow> string \<Rightarrow> pvalue" where
  "webhook_prop w name =
     (if name = ''notificationUrl'' then VString (notificationUrl w)
      else if name = ''specification'' then VObject
      else VUndefined)"

definition attachment_prop :: "AttachmentData \<Rightarrow> string \<Rightarrow> pvalue" where
  "attachment_prop a name = (if name = ''url'' then VString (url a) else VUndefined)"

definition getParameterValue :: "QueryParameters \<Rightarrow> string \<Rightarrow> pvalue" where
  "getParameterValue P paramName =
     js_or (param_prop P paramName)
       (js_or (opt_value (\<lambda>fs. fields_prop fs paramName) (p_fields P))
          (js_or (opt_value (\<lambda>w. webhook_prop w paramName) (webhookConfig P))
                 (opt_value (\<lambda>a. attachment_prop a paramName) (attachmentData P))))"

datatype RuleType = Required | Conditional

text \<open>The \<open>validation\<close> functions of the rules.\<close>

datatype RuleCheck = NonEmptyString | NonEmptyObject | HasNotificationUrl | HasUrl | BatchSize

fun run_validation :: "RuleCheck \<Rightarrow> pvalue \<Rightarrow> bool" where
  "run_validation NonEmptyString v =
     (case v of VString x \<Rightarrow> x \<noteq> [] \<and> trim x \<noteq> [] | _ \<Rightarrow> False)"
| "run_validation NonEmptyObject v =
     (case v of VFields fs \<Rightarrow> fs \<noteq> [] | VWebhook w \<Rightarrow> True | VAttachment a \<Rightarrow> True
              | VObject \<Rightarrow> True | _ \<Rightarrow> False)"
| "run_validation HasNotificationUrl v =
     (case v of VWebhook w \<Rightarrow> notificationUrl w \<noteq> []
              | VFields fs \<Rightarrow> truthy (map_of fs ''notificationUrl'') | _ \<Rightarrow> False)"
| "run_validation HasUrl v =
     (case v of VAttachment a \<Rightarrow> url a \<noteq> []
              | VFields fs \<Rightarrow> truthy (map_of fs ''url'') | _ \<Rightarrow> False)"
| "run_validation BatchSize v =
     (if \<not> js_truthy v then True
      else (case v of VNumber n \<Rightarrow> 0 < n \<and> n \<le> 10 | _ \<Rightarrow> False))"

record ValidationRule =
  parameter :: string
  rtype :: RuleType
  validation :: RuleCheck
  errorMessage :: string

definition rule :: "string \<Rightarrow> RuleType \<Rightarrow> RuleCheck \<Rightarrow> string \<Rightarrow> ValidationRule" where
  "rule p t v m = \<lparr>parameter = p, rtype = t, validation = v, errorMessage = m\<rparr>"

definition table_rule :: ValidationRule where
  "table_rule = rule ''table'' Required NonEmptyString ''El nombre de la tabla es requerido''"

definition recordId_rule :: ValidationRule where
  "recordId_rule = rule ''recordId'' Required NonEmptyString ''El ID del registro es requerido''"

text \<open>\<open>this.validationRules.get(intent) || []\<close>.\<close>

definition validationRules :: "IntentType \<Rightarrow> ValidationRule list" where
  "validationRules i =
     (if i = LIST_RECORDS then [table_rule]
      else if i = CREATE_RECORD then
        [table_rule,
         rule ''fields'' Required NonEmptyObject
           ''Se requiere al menos un campo para crear el registro'']
      else if i = UPDATE_RECORD then
        [table_rule, recordId_rule,
         rule ''fields'' Required NonEmptyObject ''Se requiere al menos un campo para actualizar'']
      else if i = DELETE_RECORD then [table_rule, recordId_rule]
      else if i = CREATE_WEBHOOK then
        [table_rule,
         rule ''webhookConfig'' Required HasNotificationUrl
           (''La configuraci'' @ [CHR 0xF3] @ ''n del webhook es requerida'')]
      else if i = UPLOAD_ATTACHMENT then
        [table_rule, recordId_rule,
         rule ''attachmentData'' Required HasUrl ''Los datos del adjunto son requeridos'']
      else if i = BATCH_CREATE_RECORDS then
        [table_rule,
         rule ''maxRecords'' Conditional BatchSize
           (''El n'' @ [CHR 0xFA] @ ''mero de registros debe estar entre 1 y 10'')]
      else [])"

definition toUpperCase :: "string \<Rightarrow> string" where
  "toUpperCase s = map toUpperCase_char s"

text \<open>The body of the loop over the rules: the error of one rule, if any.\<close>

definition check_rule :: "QueryParameters \<Rightarrow> ValidationRule \<Rightarrow> ValidationError list" where
  "check_rule P r =
     (let v = getParameterValue P (parameter r)
      in if rtype r = Required \<and> \<not> js_truthy v then
           [\<lparr>e_field = parameter r, e_message = errorMessage r,
             e_code = ''MISSING_'' @ toUpperCase (parameter r), e_severity = SevError\<rparr>]
         else if rtype r = Conditional \<and> js_truthy v then
           (if \<not> run_validation (validation r) v then
              [\<lparr>e_field = parameter r, e_message = errorMessage r,
                e_code = ''INVALID_'' @ toUpperCase (parameter r), e_severity = SevError\<rparr>]
            else [])
         else [])"

text \<open>\<open>/^https?:\/\/[^\s/$.?#].[^\s]*$/i\<close>; the dot is any character but a line
  terminator.\<close>

definition urlPattern :: rx where
  "urlPattern =
     seqs [RBol, liti ''http'', rx_opt (liti ''s''), liti ''://'',
           RChar (Neg [ClsS, Chr CHR ''/'', Chr CHR ''$'', Chr CHR ''.'', Chr CHR ''?'', Chr CHR ''#'']),
           RChar (Neg [Chr (CHR 0x0A), Chr (CHR 0x0D)]),
           RStar (RChar (Neg [ClsS])), REol]"

definition isValidUrl :: "string \<Rightarrow> bool" where
  "isValidUrl u = rx_test urlPattern u"

text \<open>\<open>/^[a-zA-Z......][a-zA-Z0-9......\s_-]*$/\<close> and \<open>/^[a-zA-Z0-9]+$/\<close>.\<close>

definition tableNamePattern :: rx where
  "tableNamePattern =
     seqs [RBol, RChar (Pos ([lower_az, upper_az] @ accents)),
           RStar (RChar (Pos ([lower_az, upper_az, digit_09] @ accents @
                              [ClsS, Chr CHR ''_'', Chr CHR ''-'']))),
           REol]"

definition recordIdPattern :: rx where
  "recordIdPattern = seqs [RBol, rx_plus (RChar (Pos [lower_az, upper_az, digit_09])), REol]"

definition additional_errors :: "IntentType \<Rightarrow> QueryParameters \<Rightarrow> ValidationError list" where
  "additional_errors i P =
     (case webhookConfig P of
        Some w \<Rightarrow>
          (if i = CREATE_WEBHOOK \<and> notificationUrl w \<noteq> [] \<and> \<not> isValidUrl (notificationUrl w) then
             [\<lparr>e_field = ''webhookConfig.notificationUrl'',
               e_message = ''La URL del webhook no es v'' @ [CHR 0xE1] @ ''lida'',
               e_code = ''INVALID_WEBHOOK_URL'', e_severity = SevError\<rparr>]
           else [])
      | None \<Rightarrow> []) @
     (case attachmentData P of
        Some a \<Rightarrow>
          (if i = UPLOAD_ATTACHMENT \<and> url a \<noteq> [] \<and> \<not> isValidUrl (url a) then
             [\<lparr>e_field = ''attachmentData.url'',
               e_message = ''La URL del adjunto no es v'' @ [CHR 0xE1] @ ''lida'',
               e_code = ''INVALID_ATTACHMENT_URL'', e_severity = SevError\<rparr>]
           else [])
      | None \<Rightarrow> []) @
     (case table P of
        Some t \<Rightarrow>
          (if t \<noteq> [] then
             (if length t > 50 then
                [\<lparr>e_field = ''table'', e_message = ''El nombre de la tabla es demasiado largo'',
                  e_code = ''TABLE_NAME_TOO_LONG'', e_severity = SevError\<rparr>]
              else []) @
             (if \<not> rx_test tableNamePattern t then
                [\<lparr>e_field = ''table'',
                  e_message = ''El nombre de la tabla contiene caracteres no v'' @ [CHR 0xE1] @ ''lidos'',
                  e_code = ''INVALID_TABLE_NAME'', e_severity = SevError\<rparr>]
              else [])
           else [])
      | None \<Rightarrow> []) @
     (case p_recordId P of
        Some r \<Rightarrow>
          (if r \<noteq> [] \<and> \<not> rx_test recordIdPattern r then
             [\<lparr>e_field = ''recordId'',
               e_message = ''El ID del registro no es v'' @ [CHR 0xE1] @ ''lido'',
               e_code = ''INVALID_RECORD_ID'', e_severity = SevError\<rparr>]
           else [])
      | None \<Rightarrow> [])"

definition additional_warnings :: "IntentType \<Rightarrow> QueryParameters \<Rightarrow> ValidationWarning list" where
  "additional_warnings i P =
     (case maxRecords P of
        Some n \<Rightarrow>
          (if str_includes (intent_value i) ''batch_'' \<and> n \<noteq> 0 \<and> n > 10 then
             [\<lparr>w_field = ''maxRecords'',
               w_message = ''El tama'' @ [CHR 0xF1] @
                           ''o del lote es mayor a 10, se recomienda usar un valor menor'',
               w_code = ''LARGE_BATCH_SIZE'',
               w_suggestion = Some (''Usar un tama'' @ [CHR 0xF1] @
                           ''o de lote de 10 o menos para mejor rendimiento'')\<rparr>]
           else [])
      | None \<Rightarrow> [])"

definition performAdditionalValidations ::
  "IntentType \<Rightarrow> QueryParameters \<Rightarrow> ConversationContext \<Rightarrow> ValidationResult" where
  "performAdditionalValidations i P context =
     \<lparr>isValid = (additional_errors i P = []), errors = additional_errors i P,
      warnings = additional_warnings i P, v_suggestions = []\<rparr>"

definition validate ::
  "IntentType \<Rightarrow> QueryParameters \<Rightarrow> ConversationContext \<Rightarrow> ValidationResult" where
  "validate i P context =
     (let additionalValidation = performAdditionalValidations i P context;
          errs = concat (map (check_rule P) (validationRules i)) @ errors additionalValidation
      in \<lparr>isValid = (errs = []), errors = errs,
          warnings = warnings additionalValidation,
          v_suggestions = v_suggestions additionalValidation\<rparr>)"

section \<open>Query processor (nlp/natural-language-processor.ts)\<close>

text \<open>The synonym groups of \<open>normalizeQuery\<close>: \<open>/\b(w1|w2|...)\b/g\<close>.\<close>

definition word_group :: "string list \<Rightarrow> rx" where
  "word_group ws = seqs [RWordB, RGroup (alts (map lit ws)), RWordB]"

definition normalizeQuery :: "string \<Rightarrow> string" where
  "normalizeQuery q =
     replace_all (word_group [''buscar'', ''encontrar'', ''filtrar'']) ''buscar''
    (replace_all (word_group [''eliminar'', ''borrar'', ''suprimir'']) ''eliminar''
    (replace_all (word_group [''actualizar'', ''modificar'', ''cambiar'', ''editar'']) ''actualizar''
    (replace_all (word_group [''mostrar'', ''mostrarme'', ''muestra'', ''ver'', ''listar'']) ''listar''
    (replace_all (word_group [''crea'', ''crear'', ''nuevo'', ''nueva'']) ''crear''
    (replace_all (RChar (Neg [ClsW, ClsS, Chr CHR ''.'', Chr CHR ''-'', Chr CHR ''_'',
                              Chr CHR ''@'', Chr CHR ''#''])) []
    (replace_all ws1 '' ''
    (trim (toLowerCase q))))))))"

text \<open>The expressions of \<open>extractEntities\<close>, in the order of the source.\<close>

definition name_start :: cclass where
  "name_start = Pos ([lower_az, upper_az] @ accents @ [Chr CHR ''_''])"

definition name_rest :: cclass where
  "name_rest = Pos ([lower_az, upper_az, digit_09] @ accents @ [Chr CHR ''_'', ClsS])"

definition alnum :: cclass where
  "alnum = Pos [lower_az, upper_az, digit_09]"

definition phrase_end :: rx where
  "phrase_end = alts [RChar (Pos [ClsS]), REol, lit ''.'', lit '','']"

definition tablePattern :: rx where
  "tablePattern =
     seqs [alts [lit ''en'', lit ''para'', lit ''tabla''], ws1,
           RGroup (RSeq (RChar name_start) (RStarLazy (RChar name_rest))), phrase_end]"

definition recordIdEntityPattern :: rx where
  "recordIdEntityPattern =
     seqs [alts [lit ''id'', lit ''registro'', lit ''record''], ws0,
           rx_opt (RChar (Pos [Chr CHR '':'', Chr CHR ''#''])), ws0,
           RGroup (rx_plus (RChar alnum))]"

definition priorityPattern :: rx where
  "priorityPattern =
     seqs [lit ''prioridad'', ws1, RGroup (alts [lit ''alta'', lit ''media'', lit ''baja''])]"

definition statusPattern :: rx where
  "statusPattern =
     seqs [alts [lit ''estado'', lit ''status''], ws0,
           rx_opt (alts [seqs [lit ''sea'', ws1], lit ''='',
                         seqs [lit ''igual'', ws1, lit ''a'', ws1]]),
           RGroup (rx_plus_lazy (RChar (Pos ([lower_az, upper_az] @ accents @ [ClsS])))),
           phrase_end]"

definition httpPattern :: rx where
  "httpPattern = seqs [lit ''http'', rx_opt (lit ''s''), lit ''://'', rx_plus (RChar (Neg [ClsS]))]"

definition webhookIdPattern :: rx where
  "webhookIdPattern = seqs [rx_opt (seqs [lit ''webhook'', ws1]), RGroup (rx_plus (RChar alnum))]"

definition countPattern :: rx where
  "countPattern =
     seqs [RGroup d1, ws1,
           alts [seqs [lit ''registro'', rx_opt (lit ''s'')], lit ''registro'',
                 seqs [lit ''record'', rx_opt (lit ''s'')], lit ''record'']]"

definition fieldPattern :: rx where
  "fieldPattern =
     seqs [lit ''campo'', ws1, RGroup (RSeq (RChar name_start) (RStarLazy (RChar name_rest)))]"

text \<open>\<open>parseInt(digits, 10)\<close> on a run of decimal digits.\<close>

definition parseInt :: "string \<Rightarrow> nat" where
  "parseInt ds = foldl (\<lambda>n c. 10 * n + (char_code c - 48)) 0 ds"

text \<open>A method call on group 1 (\<open>m[1].trim()\<close>): a \<open>TypeError\<close> when the group did
  not take part in the match.\<close>

fun on_group :: "string option \<Rightarrow> (string \<Rightarrow> 'a) \<Rightarrow> error + 'a" where
  "on_group None f = Inl TypeError"
| "on_group (Some g) f = Inr (f g)"

fun bind_r :: "error + 'a \<Rightarrow> ('a \<Rightarrow> error + 'b) \<Rightarrow> error + 'b" where
  "bind_r (Inl e) f = Inl e"
| "bind_r (Inr x) f = f x"

fun all_groups :: "(string \<times> string option) list \<Rightarrow> error + string list" where
  "all_groups [] = Inr []"
| "all_groups ((m, g) # rest) =
     bind_r (on_group g trim) (\<lambda>x. bind_r (all_groups rest) (\<lambda>xs. Inr (x # xs)))"

definition extract_table :: "string \<Rightarrow> ConversationContext \<Rightarrow> ExtractedEntities \<Rightarrow> error + ExtractedEntities" where
  "extract_table q context e =
     (case str_match tablePattern q of
        Some (m, g) \<Rightarrow> on_group g (\<lambda>x. e\<lparr>tableName := Some (trim x)\<rparr>)
      | None \<Rightarrow>
          Inr (if truthy (currentTable context) then e\<lparr>tableName := currentTable context\<rparr> else e))"

definition extract_recordId :: "string \<Rightarrow> ExtractedEntities \<Rightarrow> ExtractedEntities" where
  "extract_recordId q e =
     (case str_match recordIdEntityPattern q of
        Some (m, g) \<Rightarrow> e\<lparr>recordId := g\<rparr>
      | None \<Rightarrow> e)"

definition extract_priority :: "string \<Rightarrow> ExtractedEntities \<Rightarrow> error + ExtractedEntities" where
  "extract_priority q e =
     (case str_match priorityPattern q of
        Some (m, g) \<Rightarrow>
          on_group g (\<lambda>x. let p = toLowerCase x
                          in e\<lparr>priority := Some (if p = ''alta'' then ''Alta''
                                                  else if p = ''media'' then ''Media''
                                                  else ''Baja'')\<rparr>)
      | None \<Rightarrow> Inr e)"

definition extract_status :: "string \<Rightarrow> ExtractedEntities \<Rightarrow> error + ExtractedEntities" where
  "extract_status q e =
     (case str_match statusPattern q of
        Some (m, g) \<Rightarrow> on_group g (\<lambda>x. e\<lparr>status := Some (trim x)\<rparr>)
      | None \<Rightarrow> Inr e)"

definition extract_webhookUrl :: "string \<Rightarrow> IntentType \<Rightarrow> ExtractedEntities \<Rightarrow> ExtractedEntities" where
  "extract_webhookUrl q i e =
     (case str_match httpPattern q of
        Some (m, g) \<Rightarrow> (if i = CREATE_WEBHOOK then e\<lparr>webhookUrl := Some m\<rparr> else e)
      | None \<Rightarrow> e)"

definition extract_webhookId :: "string \<Rightarrow> IntentType \<Rightarrow> ExtractedEntities \<Rightarrow> ExtractedEntities" where
  "extract_webhookId q i e =
     (case str_match webhookIdPattern q of
        Some (m, g) \<Rightarrow> (if i = DELETE_WEBHOOK then e\<lparr>webhookId := g\<rparr> else e)
      | None \<Rightarrow> e)"

definition extract_attachmentUrl :: "string \<Rightarrow> IntentType \<Rightarrow> ExtractedEntities \<Rightarrow> ExtractedEntities" where
  "extract_attachmentUrl q i e =
     (case str_match httpPattern q of
        Some (m, g) \<Rightarrow> (if i = UPLOAD_ATTACHMENT then e\<lparr>attachmentUrl := Some m\<rparr> else e)
      | None \<Rightarrow> e)"

definition extract_count :: "string \<Rightarrow> ExtractedEntities \<Rightarrow> ExtractedEntities" where
  "extract_count q e =
     (case str_match countPattern q of
        Some (m, g) \<Rightarrow> e\<lparr>count := map_option parseInt g\<rparr>
      | None \<Rightarrow> e)"

definition extract_fieldNames :: "string \<Rightarrow> ExtractedEntities \<Rightarrow> error + ExtractedEntities" where
  "extract_fieldNames q e =
     bind_r (all_groups (match_all fieldPattern q))
       (\<lambda>fs. Inr (if length fs > 0 then e\<lparr>fieldNames := Some fs\<rparr> else e))"

text \<open>The two references to the context at the end of \<open>extractEntities\<close>.\<close>

definition resolve_references :: "string \<Rightarrow> ConversationContext \<Rightarrow> ExtractedEntities \<Rightarrow> ExtractedEntities" where
  "resolve_references q context e =
     (let e1 = (if str_includes q ''esa tabla'' \<and> truthy (currentTable context)
                then e\<lparr>tableName := currentTable context\<rparr> else e)
      in if str_includes q ''ese registro'' \<and> truthy (currentRecordId context)
         then e1\<lparr>recordId := currentRecordId context\<rparr> else e1)"

definition extractEntities ::
  "string \<Rightarrow> IntentType \<Rightarrow> ConversationContext \<Rightarrow> error + ExtractedEntities" where
  "extractEntities q i context =
     bind_r (extract_table q context no_entities) (\<lambda>e1.
     bind_r (extract_priority q (extract_recordId q e1)) (\<lambda>e2.
     bind_r (extract_status q e2) (\<lambda>e3.
     bind_r (extract_fieldNames q
               (extract_count q (extract_attachmentUrl q i (extract_webhookId q i
                  (extract_webhookUrl q i e3))))) (\<lambda>e4.
     Inr (resolve_references q context e4)))))"

text \<open>What the call needs from outside: the clock, as the ISO date of the day that is
  a number of days from today, and which stages raise an unexpected exception.\<close>

record env =
  isoDate :: "int \<Rightarrow> string"
  throws :: "stage \<Rightarrow> bool"

definition processRelativeValues :: "env \<Rightarrow> ExtractedEntities \<Rightarrow> string \<Rightarrow> ExtractedEntities" where
  "processRelativeValues E e originalQuery =
     (if str_includes originalQuery (''ma'' @ [CHR 0xF1] @ ''ana'')
      then e\<lparr>dateReference := Some (isoDate E 1)\<rparr>
      else if str_includes originalQuery ''hoy'' then e\<lparr>dateReference := Some (isoDate E 0)\<rparr>
      else if str_includes originalQuery ''ayer'' then e\<lparr>dateReference := Some (isoDate E (- 1))\<rparr>
      else e)"

fun keep_truthy :: "string option \<Rightarrow> string option" where
  "keep_truthy None = None"
| "keep_truthy (Some v) = (if v = [] then None else Some v)"

fun field_if :: "string \<Rightarrow> string option \<Rightarrow> (string \<times> string) list" where
  "field_if k None = []"
| "field_if k (Some v) = (if v = [] then [] else [(k, v)])"

fun truthy_count :: "nat option \<Rightarrow> bool" where
  "truthy_count None = False"
| "truthy_count (Some n) = (n \<noteq> 0)"

definition buildQueryParameters ::
  "IntentType \<Rightarrow> ExtractedEntities \<Rightarrow> ConversationContext \<Rightarrow> QueryParameters" where
  "buildQueryParameters i e context =
     (let params = no_parameters\<lparr>table := keep_truthy (tableName e),
                                 p_baseId := keep_truthy (baseId e),
                                 p_recordId := keep_truthy (recordId e)\<rparr>
      in if i = LIST_RECORDS \<or> i = SEARCH_RECORDS then
           params\<lparr>filterByFormula :=
                    map_option (\<lambda>v. ''{Status} = '' @ [CHR 0x27] @ v @ [CHR 0x27])
                               (keep_truthy (status e)),
                  maxRecords := (if truthy_count (count e)
                                 then map_option (\<lambda>n. min n 100) (count e) else None)\<rparr>
         else if i = CREATE_RECORD then
           params\<lparr>p_fields := Some (field_if ''Priority'' (priority e) @
                                    field_if ''Status'' (status e) @
                                    field_if ''Due Date'' (dateReference e))\<rparr>
         else if i = UPDATE_RECORD then
           params\<lparr>p_fields :=
                    (if truthy (status e) \<or> truthy (priority e)
                     then Some (field_if ''Status'' (status e) @ field_if ''Priority'' (priority e))
                     else None)\<rparr>
         else if i = CREATE_WEBHOOK then
           params\<lparr>webhookConfig :=
                    map_option (\<lambda>u. \<lparr>notificationUrl = u, dataChangeType = ''all''\<rparr>)
                               (keep_truthy (webhookUrl e))\<rparr>
         else if i = BATCH_CREATE_RECORDS then
           params\<lparr>maxRecords := (if truthy_count (count e)
                                 then map_option (\<lambda>n. min n 10) (count e) else None)\<rparr>
         else if i = UPLOAD_ATTACHMENT then
           params\<lparr>attachmentData :=
                    map_option (\<lambda>u. \<lparr>url = u\<rparr>) (keep_truthy (attachmentUrl e))\<rparr>
         else params)"

definition ask :: "string \<Rightarrow> ClarificationType \<Rightarrow> Clarification" where
  "ask q t = \<lparr>question = q, ctype = t, required = True\<rparr>"

definition determineClarifications ::
  "IntentType \<Rightarrow> ExtractedEntities \<Rightarrow> ValidationResult \<Rightarrow> Clarification list" where
  "determineClarifications i e v =
     (if requiresTable i \<and> \<not> truthy (tableName e)
      then [ask ([CHR 0xBF] @ ''En qu'' @ [CHR 0xE9] @ '' tabla quieres realizar esta operaci'' @
                 [CHR 0xF3] @ ''n?'') MISSING_TABLE]
      else []) @
     (if requiresRecordId i \<and> \<not> truthy (recordId e)
      then [ask ([CHR 0xBF] @ ''Cu'' @ [CHR 0xE1] @
                 ''l es el ID del registro que quieres actualizar?'') MISSING_VALUE]
      else []) @
     (if i = CREATE_WEBHOOK \<and> \<not> truthy (webhookUrl e)
      then [ask ([CHR 0xBF] @ ''Cu'' @ [CHR 0xE1] @
                 ''l es la URL del webhook que quieres crear?'') MISSING_VALUE]
      else []) @
     (if i = UPLOAD_ATTACHMENT \<and> \<not> truthy (attachmentUrl e)
      then [ask ([CHR 0xBF] @ ''Cu'' @ [CHR 0xE1] @
                 ''l es la URL del archivo que quieres adjuntar?'') MISSING_VALUE]
      else [])"

definition calculateConfidence ::
  "IntentType \<Rightarrow> ExtractedEntities \<Rightarrow> ValidationResult \<Rightarrow> SemanticAnalysis \<Rightarrow> rat" where
  "calculateConfidence i e v semanticAnalysis =
     min (5/10 + (if i \<noteq> UNKNOWN then 2/10 else 0)
               + min (of_nat (entityCount e) * (1/10)) (3/10)
               + (if isValid v then 2/10 else 0)
               + (if sa_confidence semanticAnalysis > 7/10 then 1/10 else 0)) 1"

text \<open>The processor owns a context handler built with the default maximum and an intent
  mapper; the other collaborators have no state.\<close>

record NaturalLanguageProcessor =
  contextHandler :: ContextHandler
  intentMapper :: IntentMapper

definition new_NaturalLanguageProcessor :: NaturalLanguageProcessor where
  "new_NaturalLanguageProcessor =
     \<lparr>contextHandler = new_ContextHandler 10, intentMapper = initializePatterns\<rparr>"

text \<open>\<open>x || d\<close> on an optional string.\<close>

fun or_default :: "string option \<Rightarrow> string \<Rightarrow> string" where
  "or_default None d = d"
| "or_default (Some v) d = (if v = [] then d else v)"

text \<open>The result of the \<open>catch\<close> block.\<close>

definition errorResult :: ProcessedQuery where
  "errorResult =
     \<lparr>intent = UNKNOWN, entities = no_entities, parameters = no_parameters, confidence = 0,
      requiresClarification = True,
      clarifications =
        [ask (''Lo siento, no pude entender tu consulta. '' @ [CHR 0xBF] @ ''Podr'' @ [CHR 0xED] @
              ''as reformularla de manera m'' @ [CHR 0xE1] @ ''s espec'' @ [CHR 0xED] @ ''fica?'')
             AMBIGUOUS_REFERENCE]\<rparr>"

text \<open>Steps 6 to 11 of the \<open>try\<close> block, from the extracted entities on.\<close>

definition finish_query ::
  "env \<Rightarrow> NaturalLanguageProcessor \<Rightarrow> NaturalLanguageQuery \<Rightarrow> ConversationContext \<Rightarrow>
   SemanticAnalysis \<Rightarrow> IntentType \<Rightarrow> ExtractedEntities \<Rightarrow>
   (error + ProcessedQuery) \<times> NaturalLanguageProcessor" where
  "finish_query E P q context semanticAnalysis i ents =
     (if throws E StRelative then (Inl (Unexpected StRelative), P) else
      let processedEntities = processRelativeValues E ents (query q) in
      if throws E StBuild then (Inl (Unexpected StBuild), P) else
      let params = buildQueryParameters i processedEntities context in
      if throws E StValidate then (Inl (Unexpected StValidate), P) else
      let v = validate i params context in
      if throws E StClarify then (Inl (Unexpected StClarify), P) else
      let clars = determineClarifications i processedEntities v in
      if throws E StConfidence then (Inl (Unexpected StConfidence), P) else
      let conf = calculateConfidence i processedEntities v semanticAnalysis in
      if throws E StUpdate then (Inl (Unexpected StUpdate), P) else
      (case updateContext (contextHandler P) (or_default (q_sessionId q) ''default'')
              \<lparr>qd_query = query q, qd_intent = i, qd_timestamp = None,
               qd_entities = Some processedEntities, qd_result = None\<rparr> of
         Inl err \<Rightarrow> (Inl err, P)
       | Inr H \<Rightarrow>
           (Inr \<lparr>intent = i, entities = processedEntities, parameters = params,
                 confidence = conf, requiresClarification = (length clars > 0),
                 clarifications = clars\<rparr>,
            P\<lparr>contextHandler := H\<rparr>)))"

text \<open>The \<open>try\<close> block: the result or the exception, and the processor as the block
  leaves it.\<close>

definition processQuery_try ::
  "env \<Rightarrow> NaturalLanguageProcessor \<Rightarrow> NaturalLanguageQuery \<Rightarrow>
   (error + ProcessedQuery) \<times> NaturalLanguageProcessor" where
  "processQuery_try E P q =
     (if throws E StNormalize then (Inl (Unexpected StNormalize), P) else
      let normalizedQuery = normalizeQuery (query q) in
      if throws E StGetContext then (Inl (Unexpected StGetContext), P) else
      (case getContext (contextHandler P) (or_default (q_sessionId q) ''default'')
                       (or_default (q_userId q) ''anonymous'') of
         (context, H) \<Rightarrow>
           let P1 = P\<lparr>contextHandler := H\<rparr> in
           if throws E StAnalyze then (Inl (Unexpected StAnalyze), P1) else
           let semanticAnalysis = analyze normalizedQuery context in
           if throws E StMapIntent then (Inl (Unexpected StMapIntent), P1) else
           (case mapIntent (intentMapper P1) normalizedQuery semanticAnalysis context of
              (i, M) \<Rightarrow>
                let P2 = P1\<lparr>intentMapper := M\<rparr> in
                if throws E StExtract then (Inl (Unexpected StExtract), P2) else
                (case extractEntities normalizedQuery i context of
                   Inl err \<Rightarrow> (Inl err, P2)
                 | Inr ents \<Rightarrow> finish_query E P2 q context semanticAnalysis i ents))))"

definition processQuery ::
  "env \<Rightarrow> NaturalLanguageProcessor \<Rightarrow> NaturalLanguageQuery \<Rightarrow>
   ProcessedQuery \<times> NaturalLanguageProcessor" where
  "processQuery E P q =
     (case processQuery_try E P q of
        (Inl err, P') \<Rightarrow> (errorResult, P')
      | (Inr r, P') \<Rightarrow> (r, P'))"

section \<open>Runs of the processor\<close>

text \<open>An environment in which no stage fails, one in which a given stage fails, a clock
  for the runs on given queries, and a query without session or user.\<close>

definition no_faults :: "(int \<Rightarrow> string) \<Rightarrow> env" where
  "no_faults clock = \<lparr>isoDate = clock, throws = (\<lambda>s. False)\<rparr>"

definition fault_at :: "stage \<Rightarrow> (int \<Rightarrow> string) \<Rightarrow> env" where
  "fault_at st clock = \<lparr>isoDate = clock, throws = (\<lambda>s. s = st)\<rparr>"

definition december :: "int \<Rightarrow> string" where
  "december n = (if n = 0 then ''2025-12-07'' else if n = 1 then ''2025-12-08'' else ''2025-12-06'')"

definition anonymous_query :: "string \<Rightarrow> NaturalLanguageQuery" where
  "anonymous_query s = \<lparr>query = s, q_userId = None, q_sessionId = None\<rparr>"


section \<open>Shape of an expression\<close>

text \<open>Whether an expression has a group, and whether every match of it goes through a
  group.\<close>

fun has_group :: "rx \<Rightarrow> bool" where
  "has_group (RGroup r) = True"
| "has_group (RSeq a b) = (has_group a \<or> has_group b)"
| "has_group (RAlt a b) = (has_group a \<or> has_group b)"
| "has_group (RStar r) = has_group r"
| "has_group (RStarLazy r) = has_group r"
| "has_group r = False"

fun binds :: "rx \<Rightarrow> bool" where
  "binds (RGroup r) = True"
| "binds (RSeq a b) = (binds a \<or> binds b)"
| "binds (RAlt a b) = (binds a \<and> binds b)"
| "binds r = False"


definition tasks_context :: ConversationContext where
  "tasks_context = (createNewContext ''s1'' ''u1'')\<lparr>currentTable := Some ''Tareas''\<rparr>"

section \<open>Properties\<close>

subsection \<open>The history of a session\<close>

lemma push_history_slice:
  assumes "0 < n"
  shows "push_history n pq (slice_last n old) = slice_last n (old @ [pq])"
proof (cases "length old < n")
  case True
  then show ?thesis using assms
    by (simp add: push_history_def slice_last_def Let_def)
next
  case False
  then have "Suc (length old) - n = Suc (length old - n)" by simp
  with False show ?thesis using assms
    by (simp add: push_history_def slice_last_def Let_def)
qed

lemma mention_history [simp]:
  "previousQueries (mention_table e c) = previousQueries c"
  "previousQueries (mention_record e c) = previousQueries c"
  "previousQueries (mention_base e c) = previousQueries c"
  "previousQueries (mention_field e c) = previousQueries c"
  by (simp_all add: mention_table_def mention_record_def mention_base_def mention_field_def
        split: option.splits)

lemma updateContext_history:
  assumes "contexts H sid = Some c"
  shows "\<exists>H'. updateContext H sid d = Inr H' \<and> maxContextQueries H' = maxContextQueries H \<and>
          (\<exists>c'. contexts H' sid = Some c' \<and>
             previousQueries c' = push_history (maxContextQueries H) (turn_of d) (previousQueries c))"
  using assms
  by (simp add: updateContext_def Let_def turn_of_def split: option.splits)

text \<open>With a maximum of at least 1 the history is the last \<open>maxContextQueries\<close> turns,
  in order of arrival, after any run of updates.\<close>

lemma history_is_last_turns:
  assumes "contexts H sid = Some c" and "0 < maxContextQueries H"
    and "previousQueries c = slice_last (maxContextQueries H) old"
  shows "\<exists>H' c'. updateContext_all H sid ds = Inr H' \<and> contexts H' sid = Some c' \<and>
           previousQueries c' = slice_last (maxContextQueries H) (old @ map turn_of ds)"
  using assms
proof (induction ds arbitrary: H c old)
  case Nil
  then show ?case by simp
next
  case (Cons d ds)
  obtain H1 c1 where 1: "updateContext H sid d = Inr H1" "maxContextQueries H1 = maxContextQueries H"
    "contexts H1 sid = Some c1"
    "previousQueries c1 = push_history (maxContextQueries H) (turn_of d) (previousQueries c)"
    using updateContext_history[OF Cons.prems(1)] by blast
  have "previousQueries c1 = slice_last (maxContextQueries H1) (old @ [turn_of d])"
    using 1 Cons.prems by (simp add: push_history_slice)
  from Cons.IH[OF 1(3) _ this] Cons.prems(2) 1 show ?case by auto
qed

lemma slice_last_length: "0 < n \<Longrightarrow> length (slice_last n xs) \<le> n"
  by (simp add: slice_last_def)

text \<open>With a maximum of 0 nothing is ever dropped.\<close>

lemma history_keeps_all_at_zero:
  assumes "contexts H sid = Some c" and "maxContextQueries H = 0"
  shows "\<exists>H' c'. updateContext_all H sid ds = Inr H' \<and> contexts H' sid = Some c' \<and>
      previousQueries c' = previousQueries c @ map turn_of ds"
  using assms
proof (induction ds arbitrary: H c)
  case Nil
  then show ?case by simp
next
  case (Cons d ds)
  obtain H1 c1 where 1: "updateContext H sid d = Inr H1" "maxContextQueries H1 = maxContextQueries H"
    "contexts H1 sid = Some c1"
    "previousQueries c1 = push_history (maxContextQueries H) (turn_of d) (previousQueries c)"
    using updateContext_history[OF Cons.prems(1)] by blast
  have "previousQueries c1 = previousQueries c @ [turn_of d]"
    using 1 Cons.prems by (simp add: push_history_def slice_last_def Let_def)
  from Cons.IH[OF 1(3)] Cons.prems(2) 1 this show ?case by auto
qed

text \<open>
  Claim C5: after any number of updates the history of a session is no longer than
  \<open>maxContextQueries\<close>.  A handler built with a maximum of 0 breaks it: after two
  updates of a new session its history holds both turns.
\<close>

theorem C5_history_exceeds_zero_maximum:
  "\<exists>H. updateContext_all (snd (getContext (new_ContextHandler 0) ''s1'' ''u1'')) ''s1''
          [\<lparr>qd_query = ''hola'', qd_intent = UNKNOWN, qd_timestamp = None,
            qd_entities = None, qd_result = None\<rparr>,
           \<lparr>qd_query = ''adios'', qd_intent = UNKNOWN, qd_timestamp = None,
            qd_entities = None, qd_result = None\<rparr>] = Inr H
       \<and> maxContextQueries H = 0
       \<and> map pq_query (history_of H ''s1'') = [''hola'', ''adios'']"
  by (simp add: updateContext_def getContext_def new_ContextHandler_def createNewContext_def
        push_history_def slice_last_def history_of_def Let_def)

subsection \<open>Characters by their bits\<close>

text \<open>The character tests and case conversions on the eight bits of a character; the
  evaluation of the pipeline on a given query uses these equations.\<close>

lemma is_upper_code [code]:
  "is_upper (Char b0 b1 b2 b3 b4 b5 b6 b7) =
     (\<not> b7 \<and> b6 \<and> \<not> b5 \<and> (b0 \<or> b1 \<or> b2 \<or> b3 \<or> b4) \<and> \<not> (b4 \<and> b3 \<and> (b2 \<or> (b1 \<and> b0))))"
  by (cases b0; cases b1; cases b2; cases b3; cases b4; cases b5; cases b6; cases b7;
      simp add: is_upper_def char_code_def)

lemma is_lower_code [code]:
  "is_lower (Char b0 b1 b2 b3 b4 b5 b6 b7) =
     (\<not> b7 \<and> b6 \<and> b5 \<and> (b0 \<or> b1 \<or> b2 \<or> b3 \<or> b4) \<and> \<not> (b4 \<and> b3 \<and> (b2 \<or> (b1 \<and> b0))))"
  by (cases b0; cases b1; cases b2; cases b3; cases b4; cases b5; cases b6; cases b7;
      simp add: is_lower_def char_code_def)

lemma is_digit_code [code]:
  "is_digit (Char b0 b1 b2 b3 b4 b5 b6 b7) =
     (\<not> b7 \<and> \<not> b6 \<and> b5 \<and> b4 \<and> (\<not> b3 \<or> (\<not> b2 \<and> \<not> b1)))"
  by (cases b0; cases b1; cases b2; cases b3; cases b4; cases b5; cases b6; cases b7;
      simp add: is_digit_def char_code_def)

lemma toLowerCase_char_code [code]:
  "toLowerCase_char (Char b0 b1 b2 b3 b4 b5 b6 b7) =
     (if b6 \<and> \<not> b5 \<and>
         (if b7 then \<not> (b0 \<and> b1 \<and> b2 \<and> b3 \<and> b4) \<and> \<not> (b0 \<and> b1 \<and> b2 \<and> \<not> b3 \<and> b4)
          else (b0 \<or> b1 \<or> b2 \<or> b3 \<or> b4) \<and> \<not> (b4 \<and> b3 \<and> (b2 \<or> (b1 \<and> b0))))
      then Char b0 b1 b2 b3 b4 True b6 b7 else Char b0 b1 b2 b3 b4 b5 b6 b7)"
  by (cases b0; cases b1; cases b2; cases b3; cases b4; cases b5; cases b6; cases b7;
      simp add: toLowerCase_char_def is_upper_def char_code_def char_of_def bit_Suc_0_iff bit_0)

lemma toUpperCase_char_code [code]:
  "toUpperCase_char (Char b0 b1 b2 b3 b4 b5 b6 b7) =
     (if b6 \<and> b5 \<and>
         (if b7 then \<not> (b0 \<and> b1 \<and> b2 \<and> b3 \<and> b4) \<and> \<not> (b0 \<and> b1 \<and> b2 \<and> \<not> b3 \<and> b4)
          else (b0 \<or> b1 \<or> b2 \<or> b3 \<or> b4) \<and> \<not> (b4 \<and> b3 \<and> (b2 \<or> (b1 \<and> b0))))
      then Char b0 b1 b2 b3 b4 False b6 b7 else Char b0 b1 b2 b3 b4 b5 b6 b7)"
  by (cases b0; cases b1; cases b2; cases b3; cases b4; cases b5; cases b6; cases b7;
      simp add: toUpperCase_char_def is_lower_def char_code_def char_of_def bit_Suc_0_iff bit_0)

subsection \<open>Runs on the queries of the scenarios\<close>

text \<open>
  Claim C7: the query "mostrarme todos los registros en la tabla Proyectos" with an empty
  context gives intent list-records and table name "Proyectos".  The code gives the intent
  list-tables and the table name "la": the normalizer rewrites "mostrarme" to "listar"
  before the patterns are tried, so the pattern written for this phrase cannot match, and
  the table expression stops at the first word after "en".
\<close>

theorem C7_scenario_gives_list_tables:
  "fst (processQuery (no_faults clock) new_NaturalLanguageProcessor
         (anonymous_query ''mostrarme todos los registros en la tabla Proyectos'')) =
     \<lparr>intent = LIST_TABLES,
      entities = no_entities\<lparr>tableName := Some ''la'', recordId := Some ''s''\<rparr>,
      parameters = no_parameters\<lparr>table := Some ''la'', p_recordId := Some ''s''\<rparr>,
      confidence = 1, requiresClarification = False, clarifications = []\<rparr>"
  by code_simp

text \<open>
  Claim C9: the query "eliminar webhook abc123" gives intent delete-webhook, webhook id
  "abc123" and no clarification.  The code gives the webhook id "eliminar": the expression
  for the id makes the word "webhook" optional, so it matches the first word of the query.
\<close>

theorem C9_scenario_webhook_id_is_first_word:
  "fst (processQuery (no_faults clock) new_NaturalLanguageProcessor
         (anonymous_query ''eliminar webhook abc123'')) =
     \<lparr>intent = DELETE_WEBHOOK,
      entities = no_entities\<lparr>webhookId := Some ''eliminar''\<rparr>,
      parameters = no_parameters,
      confidence = 1, requiresClarification = False, clarifications = []\<rparr>"
  by code_simp

text \<open>
  Claim C4: the same query on an unchanged session gives the same intent, and the intent
  mapper gives the same intent on repeated calls.  The patterns of the mapper carry the
  \<open>g\<close> flag and are tried with \<open>test\<close>, which starts at the \<open>lastIndex\<close> the call before
  left: "crear webhook" is a create-webhook the first time and a create-record the second.
\<close>

theorem C4_second_call_gives_other_intent:
  "fst (mapIntent initializePatterns ''crear webhook'' sem ctx) = CREATE_WEBHOOK \<and>
   fst (mapIntent (snd (mapIntent initializePatterns ''crear webhook'' sem ctx))
          ''crear webhook'' sem ctx) = CREATE_RECORD \<and>
   intent (fst (processQuery (no_faults clock) new_NaturalLanguageProcessor
                  (anonymous_query ''crear webhook''))) = CREATE_WEBHOOK \<and>
   intent (fst (processQuery (no_faults clock)
                  (snd (processQuery (no_faults clock) new_NaturalLanguageProcessor
                          (anonymous_query ''crear webhook'')))
                  (anonymous_query ''crear webhook''))) = CREATE_RECORD"
  by code_simp

text \<open>
  Claim C8: the query "asdkj qwoe" gives intent unknown, confidence 0 and one clarification
  of kind ambiguous-reference.  The code keeps that result for the \<open>catch\<close> block; on this
  query it returns normally.
\<close>

theorem C8_counterexample:
  "\<not> (intent (fst (processQuery (no_faults december) new_NaturalLanguageProcessor
                     (anonymous_query ''asdkj qwoe''))) = UNKNOWN \<and>
       confidence (fst (processQuery (no_faults december) new_NaturalLanguageProcessor
                     (anonymous_query ''asdkj qwoe''))) = 0 \<and>
       requiresClarification (fst (processQuery (no_faults december) new_NaturalLanguageProcessor
                     (anonymous_query ''asdkj qwoe''))) \<and>
       map ctype (clarifications (fst (processQuery (no_faults december)
                     new_NaturalLanguageProcessor (anonymous_query ''asdkj qwoe'')))) =
         [AMBIGUOUS_REFERENCE])"
  by code_simp

text \<open>
  Claim C8, amended: the query "asdkj qwoe" with an empty session context gives intent
  unknown, no entity, confidence 0.7, \<open>requiresClarification = false\<close> and no
  clarification.
\<close>

theorem C8_unknown_query_returns_normally:
  "fst (processQuery (no_faults clock) new_NaturalLanguageProcessor
         (anonymous_query ''asdkj qwoe'')) =
     \<lparr>intent = UNKNOWN, entities = no_entities, parameters = no_parameters,
      confidence = 7/10, requiresClarification = False, clarifications = []\<rparr>"
  by code_simp

theorem C8_unknown_query_witness:
  "confidence (fst (processQuery (no_faults december) new_NaturalLanguageProcessor
         (anonymous_query ''asdkj qwoe''))) = 7/10 \<and>
   clarifications (fst (processQuery (no_faults december) new_NaturalLanguageProcessor
         (anonymous_query ''asdkj qwoe''))) = []"
  using C8_unknown_query_returns_normally [of december] by simp


subsection \<open>The result of a call\<close>

lemma errorResult_fields:
  "intent errorResult = UNKNOWN" "confidence errorResult = 0"
  "requiresClarification errorResult" "map ctype (clarifications errorResult) = [AMBIGUOUS_REFERENCE]"
  by (simp_all add: errorResult_def ask_def)

lemma finish_query_Inr:
  assumes "finish_query E P q context sem i ents = (Inr r, P')"
  shows "intent r = i"
    and "entities r = processRelativeValues E ents (query q)"
    and "parameters r = buildQueryParameters i (entities r) context"
    and "confidence r = calculateConfidence i (entities r) (validate i (parameters r) context) sem"
    and "clarifications r = determineClarifications i (entities r) (validate i (parameters r) context)"
    and "requiresClarification r = (clarifications r \<noteq> [])"
    and "\<forall>s. \<not> throws E s \<or> s \<in> {StNormalize, StGetContext, StAnalyze, StMapIntent, StExtract}"
  using assms
  by (auto simp add: finish_query_def Let_def split: if_splits sum.splits intro: stage.exhaust)


lemma try_Inr:
  assumes "processQuery_try E P q = (Inr r, P')"
  shows "\<exists>P2 ents.
           extractEntities (normalizeQuery (query q)) (intent r)
             (fst (getContext (contextHandler P) (or_default (q_sessionId q) ''default'')
                       (or_default (q_userId q) ''anonymous''))) = Inr ents \<and>
           finish_query E P2 q
            (fst (getContext (contextHandler P) (or_default (q_sessionId q) ''default'')
                       (or_default (q_userId q) ''anonymous'')))
            (analyze (normalizeQuery (query q)) (fst (getContext (contextHandler P) (or_default (q_sessionId q) ''default'')
                       (or_default (q_userId q) ''anonymous''))))
            (intent r) ents = (Inr r, P')"
  using assms
  apply (simp add: processQuery_try_def Let_def split: if_splits sum.splits prod.splits)
  apply (auto dest: finish_query_Inr(1))
  done

lemma try_Inr_no_throw:
  assumes "processQuery_try E P q = (Inr r, P')"
  shows "\<not> throws E s"
  using assms
  by (cases s) (auto simp add: processQuery_try_def Let_def split: if_splits sum.splits prod.splits
        dest: finish_query_Inr(7))

lemma processQuery_Inl:
  "fst (processQuery_try E P q) = Inl err \<Longrightarrow> fst (processQuery E P q) = errorResult"
  by (cases "processQuery_try E P q") (simp add: processQuery_def)



text \<open>
  Claim C2: in every result of \<open>processQuery\<close>, from the normal return or from the
  \<open>catch\<close> block, \<open>requiresClarification\<close> is true if and only if the list of
  clarifications is not empty.
\<close>

theorem C2_requiresClarification_iff:
  "requiresClarification (fst (processQuery E P q)) = (clarifications (fst (processQuery E P q)) \<noteq> [])"
proof (cases "processQuery_try E P q")
  case (Pair res P')
  show ?thesis
  proof (cases res)
    case (Inl err)
    with Pair have "fst (processQuery E P q) = errorResult" by (simp add: processQuery_def)
    then show ?thesis by (simp add: errorResult_def)
  next
    case (Inr r)
    with Pair have r: "fst (processQuery E P q) = r" by (simp add: processQuery_def)
    from Pair Inr obtain P2 ents ctx sem where "finish_query E P2 q ctx sem (intent r) ents = (Inr r, P')"
      using try_Inr by blast
    from finish_query_Inr(6)[OF this] r show ?thesis by simp
  qed
qed

text \<open>
  Claim C3: when a stage of the pipeline raises an unexpected exception, \<open>processQuery\<close>
  still returns a result: intent unknown, confidence 0, \<open>requiresClarification\<close> true and
  exactly one clarification, of kind ambiguous-reference.
\<close>

theorem C3_failure_result:
  assumes "throws E s"
  shows "intent (fst (processQuery E P q)) = UNKNOWN \<and>
         confidence (fst (processQuery E P q)) = 0 \<and>
         requiresClarification (fst (processQuery E P q)) \<and>
         map ctype (clarifications (fst (processQuery E P q))) = [AMBIGUOUS_REFERENCE]"
proof -
  obtain res P' where t: "processQuery_try E P q = (res, P')" by (cases "processQuery_try E P q")
  have "\<exists>err. res = Inl err"
  proof (cases res)
    case (Inr r)
    with t assms try_Inr_no_throw show ?thesis by blast
  qed simp
  then obtain err where "fst (processQuery_try E P q) = Inl err" using t by auto
  then have "fst (processQuery E P q) = errorResult" by (rule processQuery_Inl)
  then show ?thesis by (simp add: errorResult_fields)
qed






subsection \<open>Captures of the matcher\<close>

lemma ms_Star_cases:
  assumes "s' \<in> set (ms (RStar r) (pre, rest, cap))"
  shows "s' = (pre, rest, cap) \<or>
         (\<exists>s1 \<in> set (ms r (pre, rest, cap)).
            length (fst (snd s1)) < length rest \<and> s' \<in> set (ms (RStar r) s1))"
  using assms by (subst (asm) ms.simps(6)) (auto split: if_splits simp del: ms.simps)

lemma ms_StarLazy_cases:
  assumes "s' \<in> set (ms (RStarLazy r) (pre, rest, cap))"
  shows "s' = (pre, rest, cap) \<or>
         (\<exists>s1 \<in> set (ms r (pre, rest, cap)).
            length (fst (snd s1)) < length rest \<and> s' \<in> set (ms (RStarLazy r) s1))"
  using assms by (subst (asm) ms.simps(7)) (auto split: if_splits simp del: ms.simps)

lemma ms_Seq_cases:
  assumes "s' \<in> set (ms (RSeq a b) s)"
  shows "\<exists>s1 \<in> set (ms a s). s' \<in> set (ms b s1)"
  using assms by (subst (asm) ms.simps(4)) (auto simp del: ms.simps)

lemma ms_Group_cases:
  assumes "s' \<in> set (ms (RGroup r) (pre, rest, cap))"
  shows "\<exists>pre' rest' cap'. (pre', rest', cap') \<in> set (ms r (pre, rest, cap)) \<and>
           s' = (pre', rest', Some (rev (take (length pre' - length pre) pre')))"
  using assms by (subst (asm) ms.simps(8)) (auto simp del: ms.simps)


lemma ms_no_group:
  "\<not> has_group r \<Longrightarrow> s' \<in> set (ms r s) \<Longrightarrow> snd (snd s') = snd (snd s)"
proof (induction r s arbitrary: s' rule: ms.induct)
  case (4 a b s)
  from ms_Seq_cases[OF "4.prems"(2)] obtain s1 where "s1 \<in> set (ms a s)" "s' \<in> set (ms b s1)" by blast
  with "4.IH" "4.prems"(1) show ?case by simp
next
  case (6 r pre rest cap)
  from ms_Star_cases[OF "6.prems"(2)] show ?case
  proof
    assume "s' = (pre, rest, cap)" then show ?thesis by simp
  next
    assume "\<exists>s1 \<in> set (ms r (pre, rest, cap)).
            length (fst (snd s1)) < length rest \<and> s' \<in> set (ms (RStar r) s1)"
    then obtain s1 where s1: "s1 \<in> set (ms r (pre, rest, cap))"
      "length (fst (snd s1)) < length rest" "s' \<in> set (ms (RStar r) s1)" by blast
    from "6.IH"(1)[OF _ s1(1)] "6.prems"(1) have "snd (snd s1) = cap" by simp
    moreover from "6.IH"(2)[OF s1(1) s1(2) "6.prems"(1) s1(3)] have "snd (snd s') = snd (snd s1)" .
    ultimately show ?thesis by simp
  qed
next
  case (7 r pre rest cap)
  from ms_StarLazy_cases[OF "7.prems"(2)] show ?case
  proof
    assume "s' = (pre, rest, cap)" then show ?thesis by simp
  next
    assume "\<exists>s1 \<in> set (ms r (pre, rest, cap)).
            length (fst (snd s1)) < length rest \<and> s' \<in> set (ms (RStarLazy r) s1)"
    then obtain s1 where s1: "s1 \<in> set (ms r (pre, rest, cap))"
      "length (fst (snd s1)) < length rest" "s' \<in> set (ms (RStarLazy r) s1)" by blast
    from "7.IH"(1)[OF _ s1(1)] "7.prems"(1) have "snd (snd s1) = cap" by simp
    moreover from "7.IH"(2)[OF s1(1) s1(2) "7.prems"(1) s1(3)] have "snd (snd s') = snd (snd s1)" .
    ultimately show ?thesis by simp
  qed
qed (auto split: if_splits simp del: ms.simps(4,6,7))

lemma ms_cap_mono:
  "snd (snd s) \<noteq> None \<Longrightarrow> s' \<in> set (ms r s) \<Longrightarrow> snd (snd s') \<noteq> None"
proof (induction r s arbitrary: s' rule: ms.induct)
  case (4 a b s)
  from ms_Seq_cases[OF "4.prems"(2)] obtain s1 where "s1 \<in> set (ms a s)" "s' \<in> set (ms b s1)" by blast
  with "4.IH" "4.prems"(1) show ?case by blast
next
  case (6 r pre rest cap)
  from ms_Star_cases[OF "6.prems"(2)] show ?case
  proof
    assume "s' = (pre, rest, cap)" then show ?thesis using "6.prems"(1) by simp
  next
    assume "\<exists>s1 \<in> set (ms r (pre, rest, cap)).
            length (fst (snd s1)) < length rest \<and> s' \<in> set (ms (RStar r) s1)"
    then obtain s1 where s1: "s1 \<in> set (ms r (pre, rest, cap))"
      "length (fst (snd s1)) < length rest" "s' \<in> set (ms (RStar r) s1)" by blast
    from "6.IH"(1)[OF "6.prems"(1) s1(1)] have "snd (snd s1) \<noteq> None" .
    from "6.IH"(2)[OF s1(1) s1(2) this s1(3)] show ?thesis .
  qed
next
  case (7 r pre rest cap)
  from ms_StarLazy_cases[OF "7.prems"(2)] show ?case
  proof
    assume "s' = (pre, rest, cap)" then show ?thesis using "7.prems"(1) by simp
  next
    assume "\<exists>s1 \<in> set (ms r (pre, rest, cap)).
            length (fst (snd s1)) < length rest \<and> s' \<in> set (ms (RStarLazy r) s1)"
    then obtain s1 where s1: "s1 \<in> set (ms r (pre, rest, cap))"
      "length (fst (snd s1)) < length rest" "s' \<in> set (ms (RStarLazy r) s1)" by blast
    from "7.IH"(1)[OF "7.prems"(1) s1(1)] have "snd (snd s1) \<noteq> None" .
    from "7.IH"(2)[OF s1(1) s1(2) this s1(3)] show ?thesis .
  qed
qed (auto split: if_splits simp del: ms.simps(4,6,7))

lemma ms_binds:
  "binds r \<Longrightarrow> s' \<in> set (ms r s) \<Longrightarrow> snd (snd s') \<noteq> None"
proof (induction r arbitrary: s s')
  case (RSeq a b)
  from ms_Seq_cases[OF RSeq.prems(2)] obtain s1 where s1: "s1 \<in> set (ms a s)" "s' \<in> set (ms b s1)" by blast
  show ?case
  proof (cases "binds a")
    case True
    from RSeq.IH(1)[OF True s1(1)] ms_cap_mono s1(2) show ?thesis by blast
  next
    case False
    with RSeq.prems(1) have "binds b" by simp
    from RSeq.IH(2)[OF this s1(2)] show ?thesis .
  qed
next
  case (RGroup r)
  obtain pre rest cap where s: "s = (pre, rest, cap)" by (cases s)
  from ms_Group_cases[OF RGroup.prems(2)[unfolded s]] show ?case by auto
next
  case (RAlt a b)
  from RAlt.prems(2) have "s' \<in> set (ms a s) \<or> s' \<in> set (ms b s)" by simp
  moreover from RAlt.prems(1) have "binds a" "binds b" by simp_all
  ultimately show ?case using RAlt.IH by blast
qed simp_all


lemma ms_consumes:
  "s' \<in> set (ms r s) \<Longrightarrow> \<exists>w. fst s' = rev w @ fst s \<and> fst (snd s) = w @ fst (snd s')"
proof (induction r s arbitrary: s' rule: ms.induct)
  case (2 P pre c cs cap)
  then show ?case by (auto split: if_splits intro: exI[of _ "[c]"])
next
  case (4 a b s)
  from ms_Seq_cases[OF "4.prems"] obtain s1 where s1: "s1 \<in> set (ms a s)" "s' \<in> set (ms b s1)" by blast
  from "4.IH"(1)[OF s1(1)] obtain w1 where w1: "fst s1 = rev w1 @ fst s" "fst (snd s) = w1 @ fst (snd s1)" by blast
  from "4.IH"(2)[OF s1(1) s1(2)] obtain w2 where w2: "fst s' = rev w2 @ fst s1" "fst (snd s1) = w2 @ fst (snd s')" by blast
  show ?case using w1 w2 by (intro exI[of _ "w1 @ w2"]) simp
next
  case (6 r pre rest cap)
  from ms_Star_cases[OF "6.prems"] show ?case
  proof
    assume "s' = (pre, rest, cap)"
    then show ?thesis by (intro exI[of _ "[]"]) simp
  next
    assume "\<exists>s1 \<in> set (ms r (pre, rest, cap)).
            length (fst (snd s1)) < length rest \<and> s' \<in> set (ms (RStar r) s1)"
    then obtain s1 where s1: "s1 \<in> set (ms r (pre, rest, cap))"
      "length (fst (snd s1)) < length rest" "s' \<in> set (ms (RStar r) s1)" by blast
    from "6.IH"(1)[OF s1(1)] obtain w1 where w1: "fst s1 = rev w1 @ pre" "rest = w1 @ fst (snd s1)" by auto
    from "6.IH"(2)[OF s1(1) s1(2) s1(3)] obtain w2 where w2: "fst s' = rev w2 @ fst s1" "fst (snd s1) = w2 @ fst (snd s')" by blast
    show ?thesis using w1 w2 by (intro exI[of _ "w1 @ w2"]) simp
  qed
next
  case (7 r pre rest cap)
  from ms_StarLazy_cases[OF "7.prems"] show ?case
  proof
    assume "s' = (pre, rest, cap)"
    then show ?thesis by (intro exI[of _ "[]"]) simp
  next
    assume "\<exists>s1 \<in> set (ms r (pre, rest, cap)).
            length (fst (snd s1)) < length rest \<and> s' \<in> set (ms (RStarLazy r) s1)"
    then obtain s1 where s1: "s1 \<in> set (ms r (pre, rest, cap))"
      "length (fst (snd s1)) < length rest" "s' \<in> set (ms (RStarLazy r) s1)" by blast
    from "7.IH"(1)[OF s1(1)] obtain w1 where w1: "fst s1 = rev w1 @ pre" "rest = w1 @ fst (snd s1)" by auto
    from "7.IH"(2)[OF s1(1) s1(2) s1(3)] obtain w2 where w2: "fst s' = rev w2 @ fst s1" "fst (snd s1) = w2 @ fst (snd s')" by blast
    show ?thesis using w1 w2 by (intro exI[of _ "w1 @ w2"]) simp
  qed
next
  case (8 r pre rest cap)
  from ms_Group_cases[OF "8.prems"] obtain pre' rest' cap' where
    g: "(pre', rest', cap') \<in> set (ms r (pre, rest, cap))"
       "s' = (pre', rest', Some (rev (take (length pre' - length pre) pre')))" by blast
  from "8.IH"[OF g(1)] g(2) show ?case by simp
qed (auto split: if_splits simp del: ms.simps(4,6,7,8))

text \<open>What a group captures is the text its body consumed.\<close>

lemma ms_Group_text:
  assumes "s' \<in> set (ms (RGroup r) (pre, rest, cap))"
  shows "\<exists>pre' rest' cap' w. (pre', rest', cap') \<in> set (ms r (pre, rest, cap)) \<and>
           pre' = rev w @ pre \<and> rest = w @ rest' \<and> s' = (pre', rest', Some w)"
proof -
  from ms_Group_cases[OF assms] obtain pre' rest' cap' where
    g: "(pre', rest', cap') \<in> set (ms r (pre, rest, cap))"
       "s' = (pre', rest', Some (rev (take (length pre' - length pre) pre')))" by blast
  from ms_consumes[OF g(1)] obtain w where w: "pre' = rev w @ pre" "rest = w @ rest'" by auto
  then have "rev (take (length pre' - length pre) pre') = w" by simp
  with g w show ?thesis by blast
qed

lemma name_start_not_space: "in_class name_start c \<Longrightarrow> \<not> is_space c"
  by (auto simp add: name_start_def accents_def lower_az_def upper_az_def is_space_def char_code_def)

lemma trim_nonempty: "\<not> is_space c \<Longrightarrow> trim (c # w) \<noteq> []"
  by (simp add: trim_def dropWhile_append)

lemma ms_RChar_cases:
  assumes "s' \<in> set (ms (RChar P) (pre, rest, cap))"
  shows "\<exists>c cs. rest = c # cs \<and> in_class P c \<and> s' = (c # pre, cs, cap)"
  using assms by (cases rest) (auto split: if_splits)

lemma name_group_text:
  assumes "s' \<in> set (ms (RGroup (RSeq (RChar name_start) X)) s)"
  shows "\<exists>x. snd (snd s') = Some x \<and> trim x \<noteq> []"
proof -
  obtain pre rest cap where s: "s = (pre, rest, cap)" by (cases s)
  from ms_Group_text[OF assms[unfolded s]] obtain pre' rest' cap' w where
    g: "(pre', rest', cap') \<in> set (ms (RSeq (RChar name_start) X) (pre, rest, cap))"
       "pre' = rev w @ pre" "rest = w @ rest'" "s' = (pre', rest', Some w)" by blast
  from ms_Seq_cases[OF g(1)] obtain s1 where
    s1: "s1 \<in> set (ms (RChar name_start) (pre, rest, cap))" "(pre', rest', cap') \<in> set (ms X s1)" by blast
  from ms_RChar_cases[OF s1(1)] obtain c cs where
    c: "rest = c # cs" "in_class name_start c" "s1 = (c # pre, cs, cap)" by blast
  from ms_consumes[OF s1(2)] c(3) obtain w' where "pre' = rev w' @ c # pre" by auto
  with g(2) have "rev w = rev w' @ [c]" by simp
  then have "w = c # w'" by (metis rev_rev_ident rev.simps(2))
  with name_start_not_space[OF c(2)] trim_nonempty g(4) show ?thesis by simp
qed

lemma seqs4: "seqs [a, b, c, d] = RSeq a (RSeq b (RSeq c (RSeq d REps)))"
  by (simp add: seqs_def)

lemma no_group_phrase_end: "\<not> has_group (RSeq phrase_end REps)"
  by (simp add: phrase_end_def lit_def seqs_def)

lemma tablePattern_group:
  assumes "s' \<in> set (ms tablePattern s)"
  shows "\<exists>x. snd (snd s') = Some x \<and> trim x \<noteq> []"
proof -
  from assms have "s' \<in> set (ms (RSeq (alts [lit ''en'', lit ''para'', lit ''tabla''])
        (RSeq ws1 (RSeq (RGroup (RSeq (RChar name_start) (RStarLazy (RChar name_rest))))
          (RSeq phrase_end REps)))) s)"
    by (simp only: tablePattern_def seqs4)
  from ms_Seq_cases[OF this] obtain s1 where
    "s' \<in> set (ms (RSeq ws1 (RSeq (RGroup (RSeq (RChar name_start) (RStarLazy (RChar name_rest))))
          (RSeq phrase_end REps))) s1)" by blast
  from ms_Seq_cases[OF this] obtain s2 where
    "s' \<in> set (ms (RSeq (RGroup (RSeq (RChar name_start) (RStarLazy (RChar name_rest))))
          (RSeq phrase_end REps)) s2)" by blast
  from ms_Seq_cases[OF this] obtain s3 where
    s3: "s3 \<in> set (ms (RGroup (RSeq (RChar name_start) (RStarLazy (RChar name_rest)))) s2)"
        "s' \<in> set (ms (RSeq phrase_end REps) s3)" by blast
  from ms_no_group[OF no_group_phrase_end s3(2)] name_group_text[OF s3(1)] show ?thesis by simp
qed

lemma match_at_Some:
  "match_at r pre rest = Some (m, g) \<Longrightarrow> \<exists>s' \<in> set (ms r (pre, rest, None)). snd (snd s') = g"
  by (auto simp add: match_at_def split: list.splits)

lemma rx_search_Some:
  "rx_search r pre rest = Some (i, m, g) \<Longrightarrow>
   \<exists>pre' rest'. \<exists>s' \<in> set (ms r (pre', rest', None)). snd (snd s') = g"
proof (induction rest arbitrary: pre)
  case Nil
  then show ?case by (auto split: option.splits dest!: match_at_Some)
next
  case (Cons c cs)
  show ?case
  proof (cases "match_at r pre (c # cs)")
    case None
    with Cons.prems have "rx_search r (c # pre) cs = Some (i, m, g)" by simp
    from Cons.IH[OF this] show ?thesis .
  next
    case (Some a)
    with Cons.prems have "match_at r pre (c # cs) = Some (m, g)" by (cases a) simp
    from match_at_Some[OF this] show ?thesis by blast
  qed
qed

lemma str_match_Some:
  "str_match r q = Some (m, g) \<Longrightarrow>
   \<exists>pre' rest'. \<exists>s' \<in> set (ms r (pre', rest', None)). snd (snd s') = g"
  by (auto simp add: str_match_def dest: rx_search_Some)

lemma match_all_from_mem:
  "(m, g) \<in> set (match_all_from r k pre rest) \<Longrightarrow>
   \<exists>pre' rest'. \<exists>s' \<in> set (ms r (pre', rest', None)). snd (snd s') = g"
proof (induction r k pre rest rule: match_all_from.induct)
  case (3 r pre)
  then have "match_at r pre [] = Some (m, g)" by (simp split: option.splits)
  from match_at_Some[OF this] show ?case by blast
next
  case (4 r pre c cs)
  show ?case
  proof (cases "match_at r pre (c # cs)")
    case None
    with 4 show ?thesis by simp
  next
    case (Some a)
    with "4.prems" have "(m, g) = a \<or> (m, g) \<in> set (match_all_from r (length (fst a) - 1) (c # pre) cs)"
      by simp
    then show ?thesis
    proof
      assume "(m, g) = a"
      with Some match_at_Some show ?thesis by metis
    next
      assume "(m, g) \<in> set (match_all_from r (length (fst a) - 1) (c # pre) cs)"
      from "4.IH"(2)[OF Some this] show ?thesis .
    qed
  qed
qed simp_all

lemma str_match_binds:
  "binds r \<Longrightarrow> str_match r q = Some (m, g) \<Longrightarrow> \<exists>x. g = Some x"
  using str_match_Some ms_binds by fastforce

lemma all_groups_binds:
  "(\<And>m g. (m, g) \<in> set xs \<Longrightarrow> \<exists>x. g = Some x) \<Longrightarrow> \<exists>fs. all_groups xs = Inr fs"
proof (induction xs)
  case Nil
  then show ?case by simp
next
  case (Cons a xs)
  obtain m g where a: "a = (m, g)" by (cases a)
  from Cons.prems[of m g] a obtain x where "g = Some x" by auto
  moreover from Cons.IH Cons.prems obtain fs where "all_groups xs = Inr fs" by auto
  ultimately show ?case using a by simp
qed

subsection \<open>The table slot\<close>

lemma binds_patterns:
  "binds priorityPattern" "binds statusPattern" "binds fieldPattern"
  by (simp_all add: priorityPattern_def statusPattern_def fieldPattern_def seqs_def)

lemma extract_table_ok:
  "\<exists>e'. extract_table q ctx e = Inr e' \<and>
         (truthy (currentTable ctx) \<longrightarrow> truthy (tableName e')) \<and>
         (truthy (currentTable ctx) \<and> str_match tablePattern q = None \<longrightarrow>
            tableName e' = currentTable ctx)"
proof (cases "str_match tablePattern q")
  case None
  then show ?thesis by (simp add: extract_table_def)
next
  case (Some a)
  obtain m g where a: "a = (m, g)" by (cases a)
  from str_match_Some[OF Some[unfolded a]] obtain pre' rest' s' where
    "s' \<in> set (ms tablePattern (pre', rest', None))" "snd (snd s') = g" by blast
  with tablePattern_group[OF this(1)] obtain x where "g = Some x" "trim x \<noteq> []" by auto
  with Some a show ?thesis by (simp add: extract_table_def)
qed

lemma extract_priority_ok:
  "\<exists>e'. extract_priority q e = Inr e' \<and> tableName e' = tableName e"
proof (cases "str_match priorityPattern q")
  case None
  then show ?thesis by (simp add: extract_priority_def)
next
  case (Some a)
  obtain m g where a: "a = (m, g)" by (cases a)
  from str_match_binds[OF binds_patterns(1) Some[unfolded a]] obtain x where "g = Some x" by blast
  with Some a show ?thesis by (simp add: extract_priority_def Let_def)
qed

lemma extract_status_ok:
  "\<exists>e'. extract_status q e = Inr e' \<and> tableName e' = tableName e"
proof (cases "str_match statusPattern q")
  case None
  then show ?thesis by (simp add: extract_status_def)
next
  case (Some a)
  obtain m g where a: "a = (m, g)" by (cases a)
  from str_match_binds[OF binds_patterns(2) Some[unfolded a]] obtain x where "g = Some x" by blast
  with Some a show ?thesis by (simp add: extract_status_def)
qed



lemma extract_fieldNames_ok:
  "\<exists>e'. extract_fieldNames q e = Inr e' \<and> tableName e' = tableName e"
proof -
  have b: "\<exists>x. g = Some x" if "(m, g) \<in> set (match_all fieldPattern q)" for m g
  proof -
    from that have "(m, g) \<in> set (match_all_from fieldPattern 0 [] q)" by (simp add: match_all_def)
    from match_all_from_mem[OF this] obtain pre' rest' s' where
      "s' \<in> set (ms fieldPattern (pre', rest', None))" "snd (snd s') = g" by blast
    with ms_binds[OF binds_patterns(3) this(1)] show ?thesis by auto
  qed
  have "\<exists>fs. all_groups (match_all fieldPattern q) = Inr fs"
    by (rule all_groups_binds) (rule b)
  then obtain fs where "all_groups (match_all fieldPattern q) = Inr fs" by blast
  then show ?thesis by (simp add: extract_fieldNames_def)
qed

lemma extract_others_table [simp]:
  "tableName (extract_recordId q e) = tableName e"
  "tableName (extract_webhookUrl q i e) = tableName e"
  "tableName (extract_webhookId q i e) = tableName e"
  "tableName (extract_attachmentUrl q i e) = tableName e"
  "tableName (extract_count q e) = tableName e"
  by (simp_all add: extract_recordId_def extract_webhookUrl_def extract_webhookId_def
        extract_attachmentUrl_def extract_count_def split: option.splits prod.splits)

lemma resolve_references_table:
  "tableName (resolve_references q ctx e) =
     (if str_includes q ''esa tabla'' \<and> truthy (currentTable ctx) then currentTable ctx
      else tableName e)"
  by (simp add: resolve_references_def Let_def)

text \<open>Extraction never raises; with a current table in the context it always fills the
  table slot.\<close>

lemma extractEntities_table:
  "\<exists>e. extractEntities q i ctx = Inr e \<and>
       (truthy (currentTable ctx) \<longrightarrow> truthy (tableName e)) \<and>
       (truthy (currentTable ctx) \<and> str_match tablePattern q = None \<longrightarrow>
          tableName e = currentTable ctx)"
proof -
  from extract_table_ok obtain e1 where
    e1: "extract_table q ctx no_entities = Inr e1"
        "truthy (currentTable ctx) \<longrightarrow> truthy (tableName e1)"
        "truthy (currentTable ctx) \<and> str_match tablePattern q = None \<longrightarrow>
           tableName e1 = currentTable ctx" by blast
  from extract_priority_ok obtain e2 where
    e2: "extract_priority q (extract_recordId q e1) = Inr e2"
        "tableName e2 = tableName (extract_recordId q e1)" by blast
  from extract_status_ok obtain e3 where
    e3: "extract_status q e2 = Inr e3" "tableName e3 = tableName e2" by blast
  from extract_fieldNames_ok obtain e4 where
    e4: "extract_fieldNames q (extract_count q (extract_attachmentUrl q i (extract_webhookId q i
                  (extract_webhookUrl q i e3)))) = Inr e4"
        "tableName e4 = tableName (extract_count q (extract_attachmentUrl q i (extract_webhookId q i
                  (extract_webhookUrl q i e3))))" by blast
  have t: "tableName e4 = tableName e1" using e2(2) e3(2) e4(2) by simp
  have r: "extractEntities q i ctx = Inr (resolve_references q ctx e4)"
    using e1(1) e2(1) e3(1) e4(1) by (simp add: extractEntities_def)
  show ?thesis using r t e1(2) e1(3) by (simp add: resolve_references_table)
qed

lemma processRelativeValues_table [simp]:
  "tableName (processRelativeValues E e oq) = tableName e"
  by (simp add: processRelativeValues_def)

lemma no_missing_table:
  "truthy (tableName e) \<Longrightarrow> MISSING_TABLE \<notin> set (map ctype (determineClarifications i e v))"
  by (auto simp add: determineClarifications_def ask_def)

lemma getContext_existing: "contexts H sid = Some ctx \<Longrightarrow> fst (getContext H sid uid) = ctx"
  by (simp add: getContext_def)

text \<open>
  Claim C10: with a context whose \<open>currentTable\<close> is set (a non-empty name, the only
  kind \<open>updateContext\<close> stores), extraction fills the table slot for every query and
  intent; when the table expression does not match, the value is the current table; so no
  clarification of kind missing-table is produced, neither by \<open>determineClarifications\<close>
  on the extracted entities nor in the result of \<open>processQuery\<close> on such a session.
\<close>

theorem C10_table_slot_filled:
  assumes "truthy (currentTable ctx)"
  shows "(\<exists>e. extractEntities q i ctx = Inr e \<and> truthy (tableName e) \<and>
              (str_match tablePattern q = None \<longrightarrow> tableName e = currentTable ctx) \<and>
              (\<forall>E oq j v. MISSING_TABLE \<notin>
                 set (map ctype (determineClarifications j (processRelativeValues E e oq) v)))) \<and>
         (contexts (contextHandler P) (or_default (q_sessionId nq) ''default'') = Some ctx \<longrightarrow>
            MISSING_TABLE \<notin> set (map ctype (clarifications (fst (processQuery E' P nq)))))"
proof
  from extractEntities_table[of q i ctx] assms obtain e where
    e: "extractEntities q i ctx = Inr e" "truthy (tableName e)"
       "str_match tablePattern q = None \<longrightarrow> tableName e = currentTable ctx" by blast
  have m: "\<forall>E oq j v. MISSING_TABLE \<notin>
                 set (map ctype (determineClarifications j (processRelativeValues E e oq) v))"
    using e(2) by (simp add: no_missing_table del: set_map)
  from e(1) e(2) e(3) m show "\<exists>e. extractEntities q i ctx = Inr e \<and> truthy (tableName e) \<and>
              (str_match tablePattern q = None \<longrightarrow> tableName e = currentTable ctx) \<and>
              (\<forall>E oq j v. MISSING_TABLE \<notin>
                 set (map ctype (determineClarifications j (processRelativeValues E e oq) v)))"
    by (intro exI[of _ e] conjI) assumption+
next
  show "contexts (contextHandler P) (or_default (q_sessionId nq) ''default'') = Some ctx \<longrightarrow>
            MISSING_TABLE \<notin> set (map ctype (clarifications (fst (processQuery E' P nq))))"
  proof
    assume c: "contexts (contextHandler P) (or_default (q_sessionId nq) ''default'') = Some ctx"
    obtain res P' where t: "processQuery_try E' P nq = (res, P')" by (cases "processQuery_try E' P nq")
    show "MISSING_TABLE \<notin> set (map ctype (clarifications (fst (processQuery E' P nq))))"
    proof (cases res)
      case (Inl err)
      with t have "fst (processQuery E' P nq) = errorResult" by (simp add: processQuery_def)
      then show ?thesis by (simp add: errorResult_def ask_def)
    next
      case (Inr r)
      with t have r: "fst (processQuery E' P nq) = r" by (simp add: processQuery_def)
      from try_Inr[OF t[unfolded Inr]] getContext_existing[OF c] obtain P2 ents where
        x: "extractEntities (normalizeQuery (query nq)) (intent r) ctx = Inr ents"
        and f: "finish_query E' P2 nq ctx (analyze (normalizeQuery (query nq)) ctx) (intent r) ents = (Inr r, P')"
        by auto
      from extractEntities_table[of "normalizeQuery (query nq)" "intent r" ctx] assms x
      have "truthy (tableName ents)" by auto
      with finish_query_Inr(2)[OF f] have "truthy (tableName (entities r))" by simp
      from no_missing_table[OF this] finish_query_Inr(5)[OF f] r show ?thesis by simp
    qed
  qed
qed

subsection \<open>Runs that meet the hypotheses\<close>

lemma mention_currentTable:
  "currentTable c \<noteq> Some [] \<Longrightarrow>
   currentTable (mention_field e (mention_base e (mention_record e (mention_table e c)))) \<noteq> Some []"
  by (simp add: mention_table_def mention_record_def mention_base_def mention_field_def
        split: option.splits)

lemma updateContext_currentTable:
  assumes "updateContext H sid d = Inr H'" and "contexts H' k = Some c'"
    and "\<And>c. contexts H k = Some c \<Longrightarrow> currentTable c \<noteq> Some []"
  shows "currentTable c' \<noteq> Some []"
  using assms
  by (auto simp add: updateContext_def Let_def mention_currentTable
        split: option.splits if_splits)

lemma getContext_currentTable:
  assumes "contexts (snd (getContext H sid uid)) k = Some c'"
    and "\<And>c. contexts H k = Some c \<Longrightarrow> currentTable c \<noteq> Some []"
  shows "currentTable c' \<noteq> Some []"
  using assms
  by (auto simp add: getContext_def Let_def createNewContext_def split: option.splits if_splits)


theorem C2_requiresClarification_witness:
  "requiresClarification (fst (processQuery (no_faults december) new_NaturalLanguageProcessor
          (anonymous_query ''asdkj qwoe''))) =
   (clarifications (fst (processQuery (no_faults december) new_NaturalLanguageProcessor
          (anonymous_query ''asdkj qwoe''))) \<noteq> [])"
  by (rule C2_requiresClarification_iff)

theorem C3_failure_witness:
  "throws (fault_at StAnalyze december) StAnalyze \<and>
   intent (fst (processQuery (fault_at StAnalyze december) new_NaturalLanguageProcessor
                  (anonymous_query ''hola''))) = UNKNOWN \<and>
   confidence (fst (processQuery (fault_at StAnalyze december) new_NaturalLanguageProcessor
                  (anonymous_query ''hola''))) = 0 \<and>
   requiresClarification (fst (processQuery (fault_at StAnalyze december)
                  new_NaturalLanguageProcessor (anonymous_query ''hola''))) \<and>
   map ctype (clarifications (fst (processQuery (fault_at StAnalyze december)
                  new_NaturalLanguageProcessor (anonymous_query ''hola'')))) = [AMBIGUOUS_REFERENCE]"
proof -
  have h: "throws (fault_at StAnalyze december) StAnalyze" by (simp add: fault_at_def)
  from C3_failure_result[OF h] h show ?thesis by blast
qed



theorem C10_table_slot_witness:
  "truthy (currentTable tasks_context) \<and>
   (\<exists>e. extractEntities ''listar todo'' LIST_RECORDS tasks_context = Inr e \<and>
        tableName e = Some ''Tareas'')"
proof -
  have h: "truthy (currentTable tasks_context)" by (simp add: tasks_context_def)
  have n: "str_match tablePattern ''listar todo'' = None" by code_simp
  from conjunct1[OF C10_table_slot_filled[OF h, of "''listar todo''" LIST_RECORDS]] obtain e where
    e: "extractEntities ''listar todo'' LIST_RECORDS tasks_context = Inr e"
       "str_match tablePattern ''listar todo'' = None \<longrightarrow> tableName e = currentTable tasks_context"
    by (elim exE conjE)
  from e(2) n have "tableName e = Some ''Tareas''" by (simp add: tasks_context_def)
  with e(1) h show ?thesis by (intro conjI exI[of _ e])
qed


subsection \<open>Normal return\<close>

text \<open>The other expressions of \<open>extractEntities\<close> whose group 1 is read bind it in every
  match too, so the slots they fill are never set to \<open>undefined\<close>.\<close>

lemma binds_other_patterns:
  "binds tablePattern" "binds recordIdEntityPattern" "binds webhookIdPattern" "binds countPattern"
  by (simp_all add: tablePattern_def recordIdEntityPattern_def webhookIdPattern_def
        countPattern_def seqs_def)

lemma getContext_defined:
  "\<exists>c. contexts (snd (getContext H sid uid)) sid = Some c"
  by (simp add: getContext_def Let_def split: option.splits)

lemma updateContext_defined:
  "contexts H sid = Some c \<Longrightarrow> \<exists>H'. updateContext H sid d = Inr H'"
  by (simp add: updateContext_def Let_def)

text \<open>When no stage raises an unexpected exception the call returns normally: the
  stages themselves never raise.\<close>

lemma no_throw_returns:
  assumes "\<And>s. \<not> throws E s"
  shows "\<exists>r. fst (processQuery_try E P q) = Inr r"
proof -
  obtain ctx H where g: "getContext (contextHandler P) (or_default (q_sessionId q) ''default'')
                       (or_default (q_userId q) ''anonymous'') = (ctx, H)"
    by (cases "getContext (contextHandler P) (or_default (q_sessionId q) ''default'')
                       (or_default (q_userId q) ''anonymous'')")
  obtain i M where m: "mapIntent (intentMapper (P\<lparr>contextHandler := H\<rparr>)) (normalizeQuery (query q))
          (analyze (normalizeQuery (query q)) ctx) ctx = (i, M)"
    by (cases "mapIntent (intentMapper (P\<lparr>contextHandler := H\<rparr>)) (normalizeQuery (query q))
          (analyze (normalizeQuery (query q)) ctx) ctx")
  from extractEntities_table obtain ents where
    x: "extractEntities (normalizeQuery (query q)) i ctx = Inr ents" by blast
  from getContext_defined[of "contextHandler P" "or_default (q_sessionId q) ''default''"
          "or_default (q_userId q) ''anonymous''"] g
  obtain c where "contexts H (or_default (q_sessionId q) ''default'') = Some c" by auto
  from updateContext_defined[OF this] have
    u: "\<And>d. \<exists>H'. updateContext H (or_default (q_sessionId q) ''default'') d = Inr H'" by blast
  have "\<exists>r P'. finish_query E (P\<lparr>contextHandler := H, intentMapper := M\<rparr>) q ctx
            (analyze (normalizeQuery (query q)) ctx) i ents = (Inr r, P')"
    using assms u
    by (simp add: finish_query_def Let_def split: sum.splits) (metis Inl_Inr_False)
  with assms g m x show ?thesis
    by (auto simp add: processQuery_try_def Let_def)
qed

end
